theory Spec2Isabelle
  imports Main "HOL-Library.Word" "HOL-Library.Signed_Division"
begin

section \<open>The operating-system state the benchmark acts on\<close>

text \<open>
  The engines of fdmonbench are C code over malloc, descriptors, a semaphore and
  pthreads. The model threads an explicit \<open>world\<close> through every library call:
  heap blocks with their cells, the open descriptors with their \<open>O_NONBLOCK\<close> flag,
  eventfd counters, io_uring instances, initialised semaphores and the live
  (not yet joined) threads. Whether a call fails is not decided by the program;
  it is read from an \<open>env\<close>, so that every failure branch of the source is a
  branch of the model.
\<close>

type_synonym fd = int
type_synonym blk = nat
type_synonym tid = nat

text \<open>What a spawned thread runs: an event loop that returns once its eventfd was
  signalled (\<open>select_thread\<close>, \<open>poll_thread\<close>, \<open>epoll_thread\<close>, \<open>io_uring_thread\<close>); the
  same loop when its eventfd never got into the wait set (\<open>io_uring_add_poll_sqe\<close>
  found the ring full and could not submit), which then never hears of a signal; or
  the endless read/echo loop of \<open>threads_fd_thread\<close>, which never returns by itself.\<close>

datatype worker = EventLoop fd | LoopWithoutControl | FdReader fd

datatype action =
    ActMalloc blk
  | ActFree blk
  | ActEventfd fd
  | ActEpollCreate fd
  | ActEpollAdd fd fd bool
  | ActClose fd
  | ActQueueInit
  | ActQueueExit
  | ActPollAdd fd bool
  | ActSubmit
  | ActSemInit
  | ActSemDestroy
  | ActSpawn tid
  | ActCancel tid
  | ActJoin tid
  | ActSignal fd
  | ActSetBlocking fd
  | ActSetNonblocking fd
  | ActSocketpair fd fd

record world =
  blocks :: "blk \<Rightarrow> int list option"
  next_blk :: blk
  open_fds :: "fd list"
  nonblock :: "fd \<Rightarrow> bool"
  efd_count :: "fd \<Rightarrow> nat"
  rings :: nat
  sems :: nat
  threads :: "tid \<Rightarrow> worker option"
  cancelled :: "tid \<Rightarrow> bool"
  next_tid :: tid
  log :: "action list"

record env =
  malloc_fails :: "nat \<Rightarrow> bool"
  eventfd_ret :: int
  epoll_create1_ret :: int
  epoll_ctl_fails :: "fd \<Rightarrow> bool"
  queue_init_fails :: bool
  submit_fails :: bool
  sem_init_fails :: bool
  pthread_create_fails :: "nat \<Rightarrow> bool"
  sem_wait_eintr :: "nat \<Rightarrow> nat"
  sem_wait_fails :: "nat \<Rightarrow> bool"
  gettid_ret :: int
  socketpair_ret :: "nat \<Rightarrow> (fd \<times> fd) option"

subsection \<open>Heap\<close>

text \<open>\<open>malloc\<close> hands out a block that no earlier pointer names; a failed call
  returns NULL (\<open>None\<close>) and changes nothing. \<open>calloc\<close> is the same with zeroed
  cells; the cells of a \<open>malloc\<close>ed block are indeterminate in C and are zero here.\<close>

definition malloc :: "bool \<Rightarrow> nat \<Rightarrow> world \<Rightarrow> blk option \<times> world" where
  "malloc fails n w =
     (if fails then (None, w)
      else (Some (next_blk w),
            w\<lparr>blocks := (blocks w)(next_blk w \<mapsto> replicate n 0),
              next_blk := Suc (next_blk w),
              log := log w @ [ActMalloc (next_blk w)]\<rparr>))"

definition calloc :: "bool \<Rightarrow> nat \<Rightarrow> world \<Rightarrow> blk option \<times> world" where
  "calloc fails n w = malloc fails n w"

definition free :: "blk \<Rightarrow> world \<Rightarrow> world" where
  "free b w = w\<lparr>blocks := (blocks w)(b := None), log := log w @ [ActFree b]\<rparr>"

definition load :: "world \<Rightarrow> blk \<Rightarrow> nat \<Rightarrow> int" where
  "load w b i = the (blocks w b) ! i"

definition load_array :: "world \<Rightarrow> blk \<Rightarrow> nat \<Rightarrow> int list" where
  "load_array w b n = take n (the (blocks w b))"

definition store :: "blk \<Rightarrow> nat \<Rightarrow> int \<Rightarrow> world \<Rightarrow> world" where
  "store b i v w =
     w\<lparr>blocks := (blocks w)(b := map_option (\<lambda>vs. vs[i := v]) (blocks w b))\<rparr>"

text \<open>\<open>memcpy(&dst[off], src, n * sizeof(int))\<close>.\<close>

definition memcpy :: "blk \<Rightarrow> nat \<Rightarrow> blk \<Rightarrow> nat \<Rightarrow> world \<Rightarrow> world" where
  "memcpy dst off src n w =
     w\<lparr>blocks := (blocks w)(dst :=
          map_option (\<lambda>vs. take off vs @ load_array w src n @ drop (off + n) vs)
            (blocks w dst))\<rparr>"

subsection \<open>Descriptors\<close>

text \<open>\<open>eventfd(0, EFD_CLOEXEC | EFD_NONBLOCK)\<close>: a negative result is the failure.\<close>

definition eventfd :: "env \<Rightarrow> world \<Rightarrow> int \<times> world" where
  "eventfd env w =
     (if eventfd_ret env < 0 then (eventfd_ret env, w)
      else (eventfd_ret env,
            w\<lparr>open_fds := eventfd_ret env # open_fds w,
              nonblock := (nonblock w)(eventfd_ret env := True),
              efd_count := (efd_count w)(eventfd_ret env := 0),
              log := log w @ [ActEventfd (eventfd_ret env)]\<rparr>))"

text \<open>\<open>socketpair(AF_UNIX, SOCK_STREAM | SOCK_CLOEXEC, 0, fds)\<close>: both ends start
  without \<open>O_NONBLOCK\<close>.\<close>

definition socketpair :: "(fd \<times> fd) option \<Rightarrow> world \<Rightarrow> (fd \<times> fd) option \<times> world" where
  "socketpair ret w =
     (case ret of
        None \<Rightarrow> (None, w)
      | Some (a, b) \<Rightarrow>
          (Some (a, b),
           w\<lparr>open_fds := a # b # open_fds w,
             nonblock := (nonblock w)(a := False, b := False),
             log := log w @ [ActSocketpair a b]\<rparr>))"

definition close_fd :: "fd \<Rightarrow> world \<Rightarrow> world" where
  "close_fd d w = w\<lparr>open_fds := remove1 d (open_fds w), log := log w @ [ActClose d]\<rparr>"

text \<open>\<open>write(efd, &eventfd_val, 8)\<close> with \<open>eventfd_val = 1\<close> adds one to the counter.\<close>

definition signal_eventfd :: "fd \<Rightarrow> world \<Rightarrow> world" where
  "signal_eventfd d w =
     w\<lparr>efd_count := (efd_count w)(d := Suc (efd_count w d)), log := log w @ [ActSignal d]\<rparr>"

text \<open>\<open>fcntl(fd, F_SETFL, fcntl(fd, F_GETFL, 0) & ~O_NONBLOCK)\<close> and its converse with
  \<open>O_NONBLOCK |\<close>.\<close>

definition set_blocking :: "fd \<Rightarrow> world \<Rightarrow> world" where
  "set_blocking d w = w\<lparr>nonblock := (nonblock w)(d := False), log := log w @ [ActSetBlocking d]\<rparr>"

definition set_nonblocking :: "fd \<Rightarrow> world \<Rightarrow> world" where
  "set_nonblocking d w =
     w\<lparr>nonblock := (nonblock w)(d := True), log := log w @ [ActSetNonblocking d]\<rparr>"

subsection \<open>Semaphore and threads\<close>

definition sem_init :: "env \<Rightarrow> world \<Rightarrow> bool \<times> world" where
  "sem_init env w =
     (if sem_init_fails env then (False, w)
      else (True, w\<lparr>sems := Suc (sems w), log := log w @ [ActSemInit]\<rparr>))"

definition sem_destroy :: "world \<Rightarrow> world" where
  "sem_destroy w = w\<lparr>sems := sems w - 1, log := log w @ [ActSemDestroy]\<rparr>"

text \<open>The handshake loop \<open>do { ret = sem_wait(..); } while (ret == -1 && errno == EINTR)\<close>:
  the environment interrupts the wait some number of times and then lets it return;
  the result is whether that last return is a success.\<close>

fun sem_wait_loop :: "nat \<Rightarrow> bool \<Rightarrow> bool" where
  "sem_wait_loop 0 fails = (\<not> fails)"
| "sem_wait_loop (Suc k) fails = sem_wait_loop k fails"

definition sem_wait :: "env \<Rightarrow> nat \<Rightarrow> bool" where
  "sem_wait env i = sem_wait_loop (sem_wait_eintr env i) (sem_wait_fails env i)"

definition pthread_create :: "bool \<Rightarrow> worker \<Rightarrow> world \<Rightarrow> tid option \<times> world" where
  "pthread_create fails wk w =
     (if fails then (None, w)
      else (Some (next_tid w),
            w\<lparr>threads := (threads w)(next_tid w \<mapsto> wk),
              cancelled := (cancelled w)(next_tid w := False),
              next_tid := Suc (next_tid w),
              log := log w @ [ActSpawn (next_tid w)]\<rparr>))"

definition pthread_cancel :: "tid \<Rightarrow> world \<Rightarrow> world" where
  "pthread_cancel t w = w\<lparr>cancelled := (cancelled w)(t := True), log := log w @ [ActCancel t]\<rparr>"

text \<open>A thread returns from its start routine only when it was cancelled (every
  worker blocks in a cancellation point) or, for an event loop that has its eventfd
  in its wait set, when the eventfd holds a signal: the wait primitive then reports
  it and the loop reads it and returns.\<close>

definition will_exit :: "world \<Rightarrow> tid \<Rightarrow> bool" where
  "will_exit w t =
     (case threads w t of
        None \<Rightarrow> True
      | Some (EventLoop e) \<Rightarrow> cancelled w t \<or> 0 < efd_count w e
      | Some LoopWithoutControl \<Rightarrow> cancelled w t
      | Some (FdReader d) \<Rightarrow> cancelled w t)"

text \<open>\<open>pthread_join\<close> returns once the thread has terminated; \<open>None\<close> is the caller
  blocked for ever on a thread that nothing will stop.\<close>

definition pthread_join :: "tid \<Rightarrow> world \<Rightarrow> world option" where
  "pthread_join t w =
     (if will_exit w t
      then Some (w\<lparr>threads := (threads w)(t := None), log := log w @ [ActJoin t]\<rparr>)
      else None)"

section \<open>Configuration (fdmonbench.h)\<close>

datatype backend = Select | Poll | Epoll | Io_uring | Threads

record options =
  engine_ops :: backend
  num_engines :: nat
  num_fds :: nat
  msg_size :: nat
  exclusive :: bool
  duration_secs :: nat

text \<open>The \<open>.name\<close> and \<open>.supports_exclusive\<close> members of the five \<open>engine_ops\<close> tables.\<close>

fun name :: "backend \<Rightarrow> string" where
  "name Select = ''select''"
| "name Poll = ''poll''"
| "name Epoll = ''epoll''"
| "name Io_uring = ''io_uring''"
| "name Threads = ''threads''"

fun supports_exclusive :: "backend \<Rightarrow> bool" where
  "supports_exclusive Select = False"
| "supports_exclusive Poll = False"
| "supports_exclusive Epoll = True"
| "supports_exclusive Io_uring = True"
| "supports_exclusive Threads = False"

text \<open>What \<open>create\<close> gives back: the engine, \<open>NULL\<close> with \<open>*errmsg\<close> set, or nothing at
  all because the call never returns.\<close>

datatype 'e result = Engine 'e | Error string | Blocked

text \<open>\<open>FD_SETSIZE\<close> of \<open><sys/select.h>\<close>.\<close>

definition FD_SETSIZE :: int where
  "FD_SETSIZE = 1024"

section \<open>select.c\<close>

record select_engine =
  se_self :: blk
  se_thread :: tid
  se_msgbuf :: blk
  se_msg_size :: nat
  se_fds :: blk
  se_num_fds :: nat

definition select_err_free_se :: "string \<Rightarrow> blk \<Rightarrow> world \<Rightarrow> select_engine result \<times> world" where
  "select_err_free_se err se w = (Error err, free se w)"

definition select_err_free_msgbuf ::
  "string \<Rightarrow> blk \<Rightarrow> blk \<Rightarrow> world \<Rightarrow> select_engine result \<times> world" where
  "select_err_free_msgbuf err se msgbuf w = select_err_free_se err se (free msgbuf w)"

definition select_err_free_fds ::
  "string \<Rightarrow> blk \<Rightarrow> blk \<Rightarrow> blk \<Rightarrow> world \<Rightarrow> select_engine result \<times> world" where
  "select_err_free_fds err se msgbuf sfds w =
     select_err_free_msgbuf err se msgbuf (free sfds w)"

definition select_err_close_eventfd ::
  "string \<Rightarrow> blk \<Rightarrow> blk \<Rightarrow> blk \<Rightarrow> world \<Rightarrow> select_engine result \<times> world" where
  "select_err_close_eventfd err se msgbuf sfds w =
     select_err_free_fds err se msgbuf sfds (close_fd (load w sfds 0) w)"

definition select_err_sem_destroy ::
  "string \<Rightarrow> blk \<Rightarrow> blk \<Rightarrow> blk \<Rightarrow> world \<Rightarrow> select_engine result \<times> world" where
  "select_err_sem_destroy err se msgbuf sfds w =
     select_err_close_eventfd err se msgbuf sfds (sem_destroy w)"

definition select_err_pthread_join ::
  "string \<Rightarrow> blk \<Rightarrow> blk \<Rightarrow> blk \<Rightarrow> tid \<Rightarrow> world \<Rightarrow> select_engine result \<times> world" where
  "select_err_pthread_join err se msgbuf sfds t w =
     (case pthread_join t w of
        None \<Rightarrow> (Blocked, w)
      | Some w' \<Rightarrow> select_err_sem_destroy err se msgbuf sfds w')"

definition select_start ::
  "env \<Rightarrow> options \<Rightarrow> blk \<Rightarrow> blk \<Rightarrow> blk \<Rightarrow> world \<Rightarrow> select_engine result \<times> world" where
  "select_start env opts se msgbuf sfds w =
     (case sem_init env w of
        (False, w1) \<Rightarrow>
          select_err_close_eventfd ''Failed to create startup semaphore'' se msgbuf sfds w1
      | (True, w1) \<Rightarrow>
          (case pthread_create (pthread_create_fails env 0) (EventLoop (load w1 sfds 0)) w1 of
             (None, w2) \<Rightarrow> select_err_sem_destroy ''pthread_create failed'' se msgbuf sfds w2
           | (Some t, w2) \<Rightarrow>
               if \<not> sem_wait env 0
               then select_err_pthread_join ''sem_wait failed'' se msgbuf sfds t w2
               else (Engine \<lparr>se_self = se, se_thread = t, se_msgbuf = msgbuf,
                              se_msg_size = msg_size opts, se_fds = sfds,
                              se_num_fds = num_fds opts + 1\<rparr>, w2)))"

definition select_create ::
  "env \<Rightarrow> options \<Rightarrow> blk \<Rightarrow> world \<Rightarrow> select_engine result \<times> world" where
  "select_create env opts fds w =
     (if exclusive opts then (Error ''select engine does not support exclusive=1'', w)
      else if list_ex (\<lambda>d. FD_SETSIZE \<le> d) (load_array w fds (num_fds opts))
      then (Error ''Maximum number of fds exceeded for select engine'', w)
      else
        (case malloc (malloc_fails env 0) 1 w of
           (None, w1) \<Rightarrow> (Error ''Out of memory'', w1)
         | (Some se, w1) \<Rightarrow>
             (case calloc (malloc_fails env 1) (msg_size opts) w1 of
                (None, w2) \<Rightarrow> select_err_free_se ''Out of memory'' se w2
              | (Some msgbuf, w2) \<Rightarrow>
                  (case malloc (malloc_fails env 2) (num_fds opts + 1) w2 of
                     (None, w3) \<Rightarrow> select_err_free_msgbuf ''Out of memory'' se msgbuf w3
                   | (Some sfds, w3) \<Rightarrow>
                       (case eventfd env (memcpy sfds 1 fds (num_fds opts) w3) of
                          (e, w4) \<Rightarrow>
                            if e < 0
                            then select_err_free_fds ''Eventfd creation failed''
                                   se msgbuf sfds (store sfds 0 e w4)
                            else if FD_SETSIZE \<le> e
                            then select_err_close_eventfd
                                   ''Maximum number of fds exceeded by eventfd''
                                   se msgbuf sfds (store sfds 0 e w4)
                            else select_start env opts se msgbuf sfds (store sfds 0 e w4))))))"

text \<open>\<open>select_destroy\<close>: signal the eventfd, join, then release.\<close>

definition select_destroy :: "select_engine \<Rightarrow> world \<Rightarrow> world option" where
  "select_destroy se w =
     (case pthread_join (se_thread se) (signal_eventfd (load w (se_fds se) 0) w) of
        None \<Rightarrow> None
      | Some w1 \<Rightarrow>
          Some (free (se_self se) (free (se_msgbuf se) (free (se_fds se)
                 (close_fd (load w1 (se_fds se) 0) (sem_destroy w1))))))"

section \<open>poll.c\<close>

text \<open>A \<open>struct pollfd\<close> takes three cells of its block: \<open>fd\<close>, \<open>events\<close>, \<open>revents\<close>.\<close>

definition POLLIN :: int where
  "POLLIN = 1"

definition pollfd_fd :: "nat \<Rightarrow> nat" where
  "pollfd_fd i = 3 * i"

definition pollfd_events :: "nat \<Rightarrow> nat" where
  "pollfd_events i = 3 * i + 1"

record poll_engine =
  pe_self :: blk
  pe_thread :: tid
  pe_msgbuf :: blk
  pe_msg_size :: nat
  pe_pollfds :: blk
  pe_num_fds :: nat

text \<open>The loop \<open>for (i = 0; i < opts->num_fds; i++)\<close> that fills entries \<open>1..num_fds\<close>.\<close>

fun poll_fill :: "blk \<Rightarrow> blk \<Rightarrow> nat list \<Rightarrow> world \<Rightarrow> world" where
  "poll_fill pfds fds [] w = w"
| "poll_fill pfds fds (i # is) w =
     poll_fill pfds fds is
       (store pfds (pollfd_events (i + 1)) POLLIN
          (store pfds (pollfd_fd (i + 1)) (load w fds i) w))"

definition poll_err_free_se :: "string \<Rightarrow> blk \<Rightarrow> world \<Rightarrow> poll_engine result \<times> world" where
  "poll_err_free_se err pe w = (Error err, free pe w)"

definition poll_err_free_msgbuf ::
  "string \<Rightarrow> blk \<Rightarrow> blk \<Rightarrow> world \<Rightarrow> poll_engine result \<times> world" where
  "poll_err_free_msgbuf err pe msgbuf w = poll_err_free_se err pe (free msgbuf w)"

definition poll_err_free_pollfds ::
  "string \<Rightarrow> blk \<Rightarrow> blk \<Rightarrow> blk \<Rightarrow> world \<Rightarrow> poll_engine result \<times> world" where
  "poll_err_free_pollfds err pe msgbuf pfds w =
     poll_err_free_msgbuf err pe msgbuf (free pfds w)"

definition poll_err_close_eventfd ::
  "string \<Rightarrow> blk \<Rightarrow> blk \<Rightarrow> blk \<Rightarrow> world \<Rightarrow> poll_engine result \<times> world" where
  "poll_err_close_eventfd err pe msgbuf pfds w =
     poll_err_free_pollfds err pe msgbuf pfds (close_fd (load w pfds (pollfd_fd 0)) w)"

definition poll_err_sem_destroy ::
  "string \<Rightarrow> blk \<Rightarrow> blk \<Rightarrow> blk \<Rightarrow> world \<Rightarrow> poll_engine result \<times> world" where
  "poll_err_sem_destroy err pe msgbuf pfds w =
     poll_err_close_eventfd err pe msgbuf pfds (sem_destroy w)"

definition poll_err_pthread_join ::
  "string \<Rightarrow> blk \<Rightarrow> blk \<Rightarrow> blk \<Rightarrow> tid \<Rightarrow> world \<Rightarrow> poll_engine result \<times> world" where
  "poll_err_pthread_join err pe msgbuf pfds t w =
     (case pthread_join t w of
        None \<Rightarrow> (Blocked, w)
      | Some w' \<Rightarrow> poll_err_sem_destroy err pe msgbuf pfds w')"

definition poll_start ::
  "env \<Rightarrow> options \<Rightarrow> blk \<Rightarrow> blk \<Rightarrow> blk \<Rightarrow> world \<Rightarrow> poll_engine result \<times> world" where
  "poll_start env opts pe msgbuf pfds w =
     (case sem_init env w of
        (False, w1) \<Rightarrow>
          poll_err_close_eventfd ''Failed to create startup semaphore'' pe msgbuf pfds w1
      | (True, w1) \<Rightarrow>
          (case pthread_create (pthread_create_fails env 0)
                  (EventLoop (load w1 pfds (pollfd_fd 0))) w1 of
             (None, w2) \<Rightarrow> poll_err_sem_destroy ''pthread_create failed'' pe msgbuf pfds w2
           | (Some t, w2) \<Rightarrow>
               if \<not> sem_wait env 0
               then poll_err_pthread_join ''sem_wait failed'' pe msgbuf pfds t w2
               else (Engine \<lparr>pe_self = pe, pe_thread = t, pe_msgbuf = msgbuf,
                              pe_msg_size = msg_size opts, pe_pollfds = pfds,
                              pe_num_fds = num_fds opts + 1\<rparr>, w2)))"

definition poll_create ::
  "env \<Rightarrow> options \<Rightarrow> blk \<Rightarrow> world \<Rightarrow> poll_engine result \<times> world" where
  "poll_create env opts fds w =
     (case malloc (malloc_fails env 0) 1 w of
        (None, w1) \<Rightarrow> (Error ''Out of memory'', w1)
      | (Some pe, w1) \<Rightarrow>
          (case calloc (malloc_fails env 1) (msg_size opts) w1 of
             (None, w2) \<Rightarrow> poll_err_free_se ''Out of memory'' pe w2
           | (Some msgbuf, w2) \<Rightarrow>
               (case calloc (malloc_fails env 2) (3 * (num_fds opts + 1)) w2 of
                  (None, w3) \<Rightarrow> poll_err_free_msgbuf ''Out of memory'' pe msgbuf w3
                | (Some pfds, w3) \<Rightarrow>
                    (case eventfd env (poll_fill pfds fds [0..<num_fds opts] w3) of
                       (e, w4) \<Rightarrow>
                         if e < 0
                         then poll_err_free_pollfds ''Eventfd creation failed''
                                pe msgbuf pfds (store pfds (pollfd_fd 0) e w4)
                         else poll_start env opts pe msgbuf pfds
                                (store pfds (pollfd_events 0) POLLIN
                                   (store pfds (pollfd_fd 0) e w4))))))"

definition poll_destroy :: "poll_engine \<Rightarrow> world \<Rightarrow> world option" where
  "poll_destroy pe w =
     (case pthread_join (pe_thread pe)
             (signal_eventfd (load w (pe_pollfds pe) (pollfd_fd 0)) w) of
        None \<Rightarrow> None
      | Some w1 \<Rightarrow>
          Some (free (pe_self pe) (free (pe_msgbuf pe) (free (pe_pollfds pe)
                 (close_fd (load w1 (pe_pollfds pe) (pollfd_fd 0)) (sem_destroy w1))))))"

section \<open>epoll.c\<close>

record epoll_engine =
  ee_self :: blk
  ee_thread :: tid
  ee_msgbuf :: blk
  ee_msg_size :: nat
  ee_efd :: fd
  ee_epfd :: fd

definition epoll_create1 :: "env \<Rightarrow> world \<Rightarrow> int \<times> world" where
  "epoll_create1 env w =
     (if epoll_create1_ret env < 0 then (epoll_create1_ret env, w)
      else (epoll_create1_ret env,
            w\<lparr>open_fds := epoll_create1_ret env # open_fds w,
              log := log w @ [ActEpollCreate (epoll_create1_ret env)]\<rparr>))"

text \<open>\<open>epoll_ctl(epfd, EPOLL_CTL_ADD, fd, &event)\<close>; the flag is whether
  \<open>EPOLLEXCLUSIVE\<close> is set in \<open>event.events\<close>.\<close>

definition epoll_ctl_add :: "env \<Rightarrow> fd \<Rightarrow> fd \<Rightarrow> bool \<Rightarrow> world \<Rightarrow> bool \<times> world" where
  "epoll_ctl_add env epfd d excl w =
     (if epoll_ctl_fails env d then (False, w)
      else (True, w\<lparr>log := log w @ [ActEpollAdd epfd d excl]\<rparr>))"

text \<open>The registration loop over \<open>fds[0..num_fds-1]\<close>; it stops at the first failure.\<close>

fun epoll_register :: "env \<Rightarrow> fd \<Rightarrow> bool \<Rightarrow> fd list \<Rightarrow> world \<Rightarrow> bool \<times> world" where
  "epoll_register env epfd excl [] w = (True, w)"
| "epoll_register env epfd excl (d # ds) w =
     (case epoll_ctl_add env epfd d excl w of
        (False, w1) \<Rightarrow> (False, w1)
      | (True, w1) \<Rightarrow> epoll_register env epfd excl ds w1)"

definition epoll_err_free_se :: "string \<Rightarrow> blk \<Rightarrow> world \<Rightarrow> epoll_engine result \<times> world" where
  "epoll_err_free_se err pe w = (Error err, free pe w)"

definition epoll_err_free_msgbuf ::
  "string \<Rightarrow> blk \<Rightarrow> blk \<Rightarrow> world \<Rightarrow> epoll_engine result \<times> world" where
  "epoll_err_free_msgbuf err pe msgbuf w = epoll_err_free_se err pe (free msgbuf w)"

definition epoll_err_close_epfd ::
  "string \<Rightarrow> blk \<Rightarrow> blk \<Rightarrow> fd \<Rightarrow> world \<Rightarrow> epoll_engine result \<times> world" where
  "epoll_err_close_epfd err pe msgbuf epfd w =
     epoll_err_free_msgbuf err pe msgbuf (close_fd epfd w)"

definition epoll_err_close_eventfd ::
  "string \<Rightarrow> blk \<Rightarrow> blk \<Rightarrow> fd \<Rightarrow> fd \<Rightarrow> world \<Rightarrow> epoll_engine result \<times> world" where
  "epoll_err_close_eventfd err pe msgbuf epfd efd w =
     epoll_err_close_epfd err pe msgbuf epfd (close_fd efd w)"

definition epoll_err_sem_destroy ::
  "string \<Rightarrow> blk \<Rightarrow> blk \<Rightarrow> fd \<Rightarrow> fd \<Rightarrow> world \<Rightarrow> epoll_engine result \<times> world" where
  "epoll_err_sem_destroy err pe msgbuf epfd efd w =
     epoll_err_close_eventfd err pe msgbuf epfd efd (sem_destroy w)"

definition epoll_err_pthread_join ::
  "string \<Rightarrow> blk \<Rightarrow> blk \<Rightarrow> fd \<Rightarrow> fd \<Rightarrow> tid \<Rightarrow> world \<Rightarrow> epoll_engine result \<times> world" where
  "epoll_err_pthread_join err pe msgbuf epfd efd t w =
     (case pthread_join t w of
        None \<Rightarrow> (Blocked, w)
      | Some w' \<Rightarrow> epoll_err_sem_destroy err pe msgbuf epfd efd w')"

definition epoll_start ::
  "env \<Rightarrow> options \<Rightarrow> blk \<Rightarrow> blk \<Rightarrow> fd \<Rightarrow> fd \<Rightarrow> world \<Rightarrow> epoll_engine result \<times> world" where
  "epoll_start env opts pe msgbuf epfd efd w =
     (case sem_init env w of
        (False, w1) \<Rightarrow>
          epoll_err_close_eventfd ''Failed to create startup semaphore'' pe msgbuf epfd efd w1
      | (True, w1) \<Rightarrow>
          (case pthread_create (pthread_create_fails env 0) (EventLoop efd) w1 of
             (None, w2) \<Rightarrow>
               epoll_err_sem_destroy ''pthread_create failed'' pe msgbuf epfd efd w2
           | (Some t, w2) \<Rightarrow>
               if \<not> sem_wait env 0
               then epoll_err_pthread_join ''sem_wait failed'' pe msgbuf epfd efd t w2
               else (Engine \<lparr>ee_self = pe, ee_thread = t, ee_msgbuf = msgbuf,
                              ee_msg_size = msg_size opts, ee_efd = efd,
                              ee_epfd = epfd\<rparr>, w2)))"

definition epoll_do_create ::
  "env \<Rightarrow> options \<Rightarrow> blk \<Rightarrow> world \<Rightarrow> epoll_engine result \<times> world" where
  "epoll_do_create env opts fds w =
     (case malloc (malloc_fails env 0) 1 w of
        (None, w1) \<Rightarrow> (Error ''Out of memory'', w1)
      | (Some pe, w1) \<Rightarrow>
          (case calloc (malloc_fails env 1) (msg_size opts) w1 of
             (None, w2) \<Rightarrow> epoll_err_free_se ''Out of memory'' pe w2
           | (Some msgbuf, w2) \<Rightarrow>
               (case epoll_create1 env w2 of
                  (epfd, w3) \<Rightarrow>
                    if epfd < 0
                    then epoll_err_free_msgbuf ''epoll_create1 failed'' pe msgbuf w3
                    else
                      (case epoll_register env epfd (exclusive opts)
                              (load_array w3 fds (num_fds opts)) w3 of
                         (False, w4) \<Rightarrow>
                           epoll_err_close_epfd ''epoll_ctl failed'' pe msgbuf epfd w4
                       | (True, w4) \<Rightarrow>
                           (case eventfd env w4 of
                              (efd, w5) \<Rightarrow>
                                if efd < 0
                                then epoll_err_close_epfd ''Eventfd creation failed''
                                       pe msgbuf epfd w5
                                else
                                  (case epoll_ctl_add env epfd efd (exclusive opts) w5 of
                                     (False, w6) \<Rightarrow>
                                       epoll_err_close_eventfd ''epoll_ctl failed''
                                         pe msgbuf epfd efd w6
                                   | (True, w6) \<Rightarrow>
                                       epoll_start env opts pe msgbuf epfd efd w6))))))"

definition epoll_destroy :: "epoll_engine \<Rightarrow> world \<Rightarrow> world option" where
  "epoll_destroy pe w =
     (case pthread_join (ee_thread pe) (signal_eventfd (ee_efd pe) w) of
        None \<Rightarrow> None
      | Some w1 \<Rightarrow>
          Some (free (ee_self pe) (free (ee_msgbuf pe)
                 (close_fd (ee_epfd pe) (close_fd (ee_efd pe) (sem_destroy w1))))))"

section \<open>io_uring.c\<close>

record io_uring_engine =
  ue_self :: blk
  ue_thread :: tid
  ue_msgbuf :: blk
  ue_msg_size :: nat
  ue_efd :: fd
  ue_exclusive :: bool
  ue_pending :: nat

text \<open>The ring is set up with \<open>io_uring_queue_init(64, ..)\<close>: \<open>io_uring_get_sqe\<close> returns
  NULL exactly when 64 entries are queued and not yet submitted.\<close>

definition queue_depth :: nat where
  "queue_depth = 64"

definition io_uring_queue_init :: "env \<Rightarrow> world \<Rightarrow> bool \<times> world" where
  "io_uring_queue_init env w =
     (if queue_init_fails env then (False, w)
      else (True, w\<lparr>rings := Suc (rings w), log := log w @ [ActQueueInit]\<rparr>))"

definition io_uring_queue_exit :: "world \<Rightarrow> world" where
  "io_uring_queue_exit w = w\<lparr>rings := rings w - 1, log := log w @ [ActQueueExit]\<rparr>"

definition io_uring_submit :: "env \<Rightarrow> nat \<Rightarrow> world \<Rightarrow> bool \<times> nat \<times> world" where
  "io_uring_submit env pending w =
     (if submit_fails env then (False, pending, w)
      else (True, 0, w\<lparr>log := log w @ [ActSubmit]\<rparr>))"

text \<open>\<open>io_uring_add_poll_sqe\<close>: when no entry is free it submits and tries once more;
  both failures are only printed and the function returns without a poll request
  for the descriptor. The flag passed in is whether \<open>poll_mask\<close> holds
  \<open>EPOLLEXCLUSIVE\<close>; the first component of the result is whether the request was
  queued.\<close>

definition io_uring_add_poll_sqe ::
  "env \<Rightarrow> bool \<Rightarrow> fd \<Rightarrow> nat \<Rightarrow> world \<Rightarrow> bool \<times> nat \<times> world" where
  "io_uring_add_poll_sqe env excl d pending w =
     (if pending < queue_depth
      then (True, Suc pending, w\<lparr>log := log w @ [ActPollAdd d excl]\<rparr>)
      else
        (case io_uring_submit env pending w of
           (False, pending1, w1) \<Rightarrow> (False, pending1, w1)
         | (True, pending1, w1) \<Rightarrow>
             if pending1 < queue_depth
             then (True, Suc pending1, w1\<lparr>log := log w1 @ [ActPollAdd d excl]\<rparr>)
             else (False, pending1, w1)))"

fun io_uring_add_all :: "env \<Rightarrow> bool \<Rightarrow> fd list \<Rightarrow> nat \<Rightarrow> world \<Rightarrow> nat \<times> world" where
  "io_uring_add_all env excl [] pending w = (pending, w)"
| "io_uring_add_all env excl (d # ds) pending w =
     (case io_uring_add_poll_sqe env excl d pending w of
        (_, pending1, w1) \<Rightarrow> io_uring_add_all env excl ds pending1 w1)"

definition io_uring_err_free_se ::
  "string \<Rightarrow> blk \<Rightarrow> world \<Rightarrow> io_uring_engine result \<times> world" where
  "io_uring_err_free_se err pe w = (Error err, free pe w)"

definition io_uring_err_free_msgbuf ::
  "string \<Rightarrow> blk \<Rightarrow> blk \<Rightarrow> world \<Rightarrow> io_uring_engine result \<times> world" where
  "io_uring_err_free_msgbuf err pe msgbuf w = io_uring_err_free_se err pe (free msgbuf w)"

definition io_uring_err_queue_exit ::
  "string \<Rightarrow> blk \<Rightarrow> blk \<Rightarrow> world \<Rightarrow> io_uring_engine result \<times> world" where
  "io_uring_err_queue_exit err pe msgbuf w =
     io_uring_err_free_msgbuf err pe msgbuf (io_uring_queue_exit w)"

definition io_uring_err_close_eventfd ::
  "string \<Rightarrow> blk \<Rightarrow> blk \<Rightarrow> fd \<Rightarrow> world \<Rightarrow> io_uring_engine result \<times> world" where
  "io_uring_err_close_eventfd err pe msgbuf efd w =
     io_uring_err_queue_exit err pe msgbuf (close_fd efd w)"

definition io_uring_err_sem_destroy ::
  "string \<Rightarrow> blk \<Rightarrow> blk \<Rightarrow> fd \<Rightarrow> world \<Rightarrow> io_uring_engine result \<times> world" where
  "io_uring_err_sem_destroy err pe msgbuf efd w =
     io_uring_err_close_eventfd err pe msgbuf efd (sem_destroy w)"

definition io_uring_err_pthread_join ::
  "string \<Rightarrow> blk \<Rightarrow> blk \<Rightarrow> fd \<Rightarrow> tid \<Rightarrow> world \<Rightarrow> io_uring_engine result \<times> world" where
  "io_uring_err_pthread_join err pe msgbuf efd t w =
     (case pthread_join t w of
        None \<Rightarrow> (Blocked, w)
      | Some w' \<Rightarrow> io_uring_err_sem_destroy err pe msgbuf efd w')"

text \<open>The rest of \<open>io_uring_create\<close>, from \<open>sem_init\<close> on. The worker it starts has the
  eventfd in its wait set exactly when the poll request for it was queued.\<close>

definition io_uring_start ::
  "env \<Rightarrow> options \<Rightarrow> blk \<Rightarrow> blk \<Rightarrow> fd \<Rightarrow> bool \<Rightarrow> nat \<Rightarrow> world
     \<Rightarrow> io_uring_engine result \<times> world"
  where
  "io_uring_start env opts pe msgbuf efd queued pending w =
     (case sem_init env w of
        (False, w1) \<Rightarrow>
          io_uring_err_close_eventfd ''Failed to create startup semaphore'' pe msgbuf efd w1
      | (True, w1) \<Rightarrow>
          (case pthread_create (pthread_create_fails env 0)
                  (if queued then EventLoop efd else LoopWithoutControl) w1 of
             (None, w2) \<Rightarrow> io_uring_err_sem_destroy ''pthread_create failed'' pe msgbuf efd w2
           | (Some t, w2) \<Rightarrow>
               if \<not> sem_wait env 0
               then io_uring_err_pthread_join ''sem_wait failed'' pe msgbuf efd t w2
               else (Engine \<lparr>ue_self = pe, ue_thread = t, ue_msgbuf = msgbuf,
                              ue_msg_size = msg_size opts, ue_efd = efd,
                              ue_exclusive = exclusive opts, ue_pending = pending\<rparr>, w2)))"

definition io_uring_create ::
  "env \<Rightarrow> options \<Rightarrow> blk \<Rightarrow> world \<Rightarrow> io_uring_engine result \<times> world" where
  "io_uring_create env opts fds w =
     (case malloc (malloc_fails env 0) 1 w of
        (None, w1) \<Rightarrow> (Error ''Out of memory'', w1)
      | (Some pe, w1) \<Rightarrow>
          (case calloc (malloc_fails env 1) (msg_size opts) w1 of
             (None, w2) \<Rightarrow> io_uring_err_free_se ''Out of memory'' pe w2
           | (Some msgbuf, w2) \<Rightarrow>
               (case io_uring_queue_init env w2 of
                  (False, w3) \<Rightarrow>
                    io_uring_err_free_msgbuf
                      ''io_uring_queue_init failed (do you need to increase ulimit -l?)''
                      pe msgbuf w3
                | (True, w3) \<Rightarrow>
                    (case io_uring_add_all env (exclusive opts)
                            (load_array w3 fds (num_fds opts)) 0 w3 of
                       (pending4, w4) \<Rightarrow>
                         (case eventfd env w4 of
                            (efd, w5) \<Rightarrow>
                              if efd < 0
                              then io_uring_err_queue_exit ''Eventfd creation failed''
                                     pe msgbuf w5
                              else
                                (case io_uring_add_poll_sqe env (exclusive opts) efd
                                        pending4 w5 of
                                   (queued, pending6, w6) \<Rightarrow>
                                     (case io_uring_submit env pending6 w6 of
                                        (_, pending7, w7) \<Rightarrow>
                                          io_uring_start env opts pe msgbuf efd
                                            queued pending7 w7)))))))"

definition io_uring_destroy :: "io_uring_engine \<Rightarrow> world \<Rightarrow> world option" where
  "io_uring_destroy pe w =
     (case pthread_join (ue_thread pe) (signal_eventfd (ue_efd pe) w) of
        None \<Rightarrow> None
      | Some w1 \<Rightarrow>
          Some (free (ue_self pe) (free (ue_msgbuf pe)
                 (io_uring_queue_exit (close_fd (ue_efd pe) (sem_destroy w1))))))"

section \<open>The thread-per-descriptor engine\<close>

record threads_engine =
  te_self :: blk
  te_threads :: blk
  te_msgbuf :: blk
  te_msg_size :: nat
  te_num_fds :: nat

text \<open>\<open>while (i-- > 0) { pthread_cancel(te->threads[i]); pthread_join(te->threads[i], NULL); }\<close>\<close>

fun threads_cancel_down :: "blk \<Rightarrow> nat \<Rightarrow> world \<Rightarrow> world option" where
  "threads_cancel_down thr 0 w = Some w"
| "threads_cancel_down thr (Suc i) w =
     (case pthread_join (nat (load w thr i)) (pthread_cancel (nat (load w thr i)) w) of
        None \<Rightarrow> None
      | Some w' \<Rightarrow> threads_cancel_down thr i w')"

definition threads_err_free_se ::
  "string \<Rightarrow> blk \<Rightarrow> world \<Rightarrow> threads_engine result \<times> world" where
  "threads_err_free_se err te w = (Error err, free te w)"

definition threads_err_free_msgbuf ::
  "string \<Rightarrow> blk \<Rightarrow> blk \<Rightarrow> world \<Rightarrow> threads_engine result \<times> world" where
  "threads_err_free_msgbuf err te msgbuf w = threads_err_free_se err te (free msgbuf w)"

definition threads_err_free_threads ::
  "string \<Rightarrow> blk \<Rightarrow> blk \<Rightarrow> blk \<Rightarrow> world \<Rightarrow> threads_engine result \<times> world" where
  "threads_err_free_threads err te msgbuf thr w =
     threads_err_free_msgbuf err te msgbuf (free thr w)"

definition threads_err_sem_destroy ::
  "string \<Rightarrow> blk \<Rightarrow> blk \<Rightarrow> blk \<Rightarrow> world \<Rightarrow> threads_engine result \<times> world" where
  "threads_err_sem_destroy err te msgbuf thr w =
     threads_err_free_threads err te msgbuf thr (sem_destroy w)"

definition threads_err_cancel_threads ::
  "string \<Rightarrow> blk \<Rightarrow> blk \<Rightarrow> blk \<Rightarrow> nat \<Rightarrow> world \<Rightarrow> threads_engine result \<times> world" where
  "threads_err_cancel_threads err te msgbuf thr i w =
     (case threads_cancel_down thr i w of
        None \<Rightarrow> (Blocked, w)
      | Some w' \<Rightarrow> threads_err_sem_destroy err te msgbuf thr w')"

text \<open>The body of \<open>for (int i = 0; i < te->num_fds; i++)\<close>, over the indices still to do.\<close>

fun threads_spawn ::
  "env \<Rightarrow> options \<Rightarrow> blk \<Rightarrow> blk \<Rightarrow> blk \<Rightarrow> blk \<Rightarrow> nat list \<Rightarrow> world
     \<Rightarrow> threads_engine result \<times> world" where
  "threads_spawn env opts te msgbuf thr fds [] w =
     (Engine \<lparr>te_self = te, te_threads = thr, te_msgbuf = msgbuf,
               te_msg_size = msg_size opts, te_num_fds = num_fds opts\<rparr>, w)"
| "threads_spawn env opts te msgbuf thr fds (i # is) w =
     (case pthread_create (pthread_create_fails env i) (FdReader (load w fds i))
             (set_blocking (load w fds i) w) of
        (None, w1) \<Rightarrow>
          threads_err_cancel_threads ''pthread_create failed'' te msgbuf thr i w1
      | (Some t, w1) \<Rightarrow>
          if \<not> sem_wait env i
          then (case pthread_join (nat (load (store thr i (int t) w1) thr i))
                       (store thr i (int t) w1) of
                  None \<Rightarrow> (Blocked, store thr i (int t) w1)
                | Some w2 \<Rightarrow>
                    threads_err_cancel_threads ''sem_wait failed'' te msgbuf thr i w2)
          else threads_spawn env opts te msgbuf thr fds is (store thr i (int t) w1))"

definition threads_create ::
  "env \<Rightarrow> options \<Rightarrow> blk \<Rightarrow> world \<Rightarrow> threads_engine result \<times> world" where
  "threads_create env opts fds w =
     (case malloc (malloc_fails env 0) 1 w of
        (None, w1) \<Rightarrow> (Error ''Out of memory'', w1)
      | (Some te, w1) \<Rightarrow>
          (case calloc (malloc_fails env 1) (msg_size opts) w1 of
             (None, w2) \<Rightarrow> threads_err_free_se ''Out of memory'' te w2
           | (Some msgbuf, w2) \<Rightarrow>
               (case malloc (malloc_fails env 2) (num_fds opts) w2 of
                  (None, w3) \<Rightarrow> threads_err_free_msgbuf ''Out of memory'' te msgbuf w3
                | (Some thr, w3) \<Rightarrow>
                    (case sem_init env w3 of
                       (False, w4) \<Rightarrow>
                         threads_err_free_threads ''Failed to create startup semaphore''
                           te msgbuf thr w4
                     | (True, w4) \<Rightarrow>
                         threads_spawn env opts te msgbuf thr fds
                           [0..<num_fds opts] w4))))"

text \<open>\<open>threads_destroy\<close>: cancel and join every thread in index order, then release.\<close>

fun threads_cancel_up :: "blk \<Rightarrow> nat list \<Rightarrow> world \<Rightarrow> world option" where
  "threads_cancel_up thr [] w = Some w"
| "threads_cancel_up thr (i # is) w =
     (case pthread_join (nat (load w thr i)) (pthread_cancel (nat (load w thr i)) w) of
        None \<Rightarrow> None
      | Some w' \<Rightarrow> threads_cancel_up thr is w')"

definition threads_destroy :: "threads_engine \<Rightarrow> world \<Rightarrow> world option" where
  "threads_destroy te w =
     (case threads_cancel_up (te_threads te) [0..<te_num_fds te] w of
        None \<Rightarrow> None
      | Some w1 \<Rightarrow>
          Some (free (te_self te) (free (te_msgbuf te) (free (te_threads te)
                 (sem_destroy w1)))))"

section \<open>Dispatch through \<open>engine_ops\<close>\<close>

datatype engine =
    SelectEngine select_engine
  | PollEngine poll_engine
  | EpollEngine epoll_engine
  | IoUringEngine io_uring_engine
  | ThreadsEngine threads_engine

text \<open>\<open>opts->engine_ops->create(opts, fds, errmsg)\<close>\<close>

definition create :: "env \<Rightarrow> options \<Rightarrow> blk \<Rightarrow> world \<Rightarrow> engine result \<times> world" where
  "create env opts fds w =
     (case engine_ops opts of
        Select \<Rightarrow> map_prod (map_result SelectEngine) id (select_create env opts fds w)
      | Poll \<Rightarrow> map_prod (map_result PollEngine) id (poll_create env opts fds w)
      | Epoll \<Rightarrow> map_prod (map_result EpollEngine) id (epoll_do_create env opts fds w)
      | Io_uring \<Rightarrow> map_prod (map_result IoUringEngine) id (io_uring_create env opts fds w)
      | Threads \<Rightarrow> map_prod (map_result ThreadsEngine) id (threads_create env opts fds w))"

text \<open>\<open>e->ops->destroy(e)\<close>\<close>

fun destroy :: "engine \<Rightarrow> world \<Rightarrow> world option" where
  "destroy (SelectEngine e) w = select_destroy e w"
| "destroy (PollEngine e) w = poll_destroy e w"
| "destroy (EpollEngine e) w = epoll_destroy e w"
| "destroy (IoUringEngine e) w = io_uring_destroy e w"
| "destroy (ThreadsEngine e) w = threads_destroy e w"

text \<open>An action that gives up something a worker may still use: memory, a descriptor,
  the semaphore, the ring.\<close>

fun is_release :: "action \<Rightarrow> bool" where
  "is_release (ActFree b) = True"
| "is_release (ActClose d) = True"
| "is_release ActSemDestroy = True"
| "is_release ActQueueExit = True"
| "is_release a = False"

text \<open>The shutdown sentinel written to a control descriptor.\<close>

fun is_signal :: "action \<Rightarrow> bool" where
  "is_signal (ActSignal d) = True"
| "is_signal a = False"

text \<open>Reading a list of actions from the left with the threads not yet joined: no
  release happens while one of them is left.\<close>

fun released_after_join :: "tid list \<Rightarrow> action list \<Rightarrow> bool" where
  "released_after_join live [] = True"
| "released_after_join live (ActJoin t # as) = released_after_join (removeAll t live) as"
| "released_after_join live (a # as) =
     (if is_release a then live = [] \<and> released_after_join live as
      else released_after_join live as)"

text \<open>The worker threads an engine holds (\<open>->thread\<close>, or \<open>->threads[0..num_fds-1]\<close>) and its
  control descriptor (\<open>->fds[0]\<close>, \<open>->pollfds[0].fd\<close>, \<open>->efd\<close>); the thread-per-descriptor
  engine has none.\<close>

fun engine_threads :: "engine \<Rightarrow> world \<Rightarrow> tid list" where
  "engine_threads (SelectEngine e) w = [se_thread e]"
| "engine_threads (PollEngine e) w = [pe_thread e]"
| "engine_threads (EpollEngine e) w = [ee_thread e]"
| "engine_threads (IoUringEngine e) w = [ue_thread e]"
| "engine_threads (ThreadsEngine e) w =
     map (\<lambda>i. nat (load w (te_threads e) i)) [0..<te_num_fds e]"

fun control_fd :: "engine \<Rightarrow> world \<Rightarrow> fd option" where
  "control_fd (SelectEngine e) w = Some (load w (se_fds e) 0)"
| "control_fd (PollEngine e) w = Some (load w (pe_pollfds e) (pollfd_fd 0))"
| "control_fd (EpollEngine e) w = Some (ee_efd e)"
| "control_fd (IoUringEngine e) w = Some (ue_efd e)"
| "control_fd (ThreadsEngine e) w = None"




text \<open>The heap blocks an engine owns (the engine structure, the message buffer and,
  where there is one, the array of descriptors, of \<open>pollfd\<close>s or of thread
  identifiers), and the descriptors it closes in \<open>destroy\<close>, in the order it closes
  them.\<close>

fun engine_blocks :: "engine \<Rightarrow> blk list" where
  "engine_blocks (SelectEngine e) = [se_self e, se_msgbuf e, se_fds e]"
| "engine_blocks (PollEngine e) = [pe_self e, pe_msgbuf e, pe_pollfds e]"
| "engine_blocks (EpollEngine e) = [ee_self e, ee_msgbuf e]"
| "engine_blocks (IoUringEngine e) = [ue_self e, ue_msgbuf e]"
| "engine_blocks (ThreadsEngine e) = [te_self e, te_msgbuf e, te_threads e]"

fun engine_fds :: "engine \<Rightarrow> world \<Rightarrow> fd list" where
  "engine_fds (SelectEngine e) w = [load w (se_fds e) 0]"
| "engine_fds (PollEngine e) w = [load w (pe_pollfds e) (pollfd_fd 0)]"
| "engine_fds (EpollEngine e) w = [ee_efd e, ee_epfd e]"
| "engine_fds (IoUringEngine e) w = [ue_efd e]"
| "engine_fds (ThreadsEngine e) w = []"

text \<open>An engine whose worker listens: the thread of a select, poll, epoll or io_uring
  engine runs the event loop with the engine's control descriptor in its wait set.
  Nothing is asked of the workers of a thread-per-descriptor engine.\<close>

fun engine_listens :: "engine \<Rightarrow> world \<Rightarrow> bool" where
  "engine_listens (SelectEngine e) w =
     (threads w (se_thread e) = Some (EventLoop (load w (se_fds e) 0)))"
| "engine_listens (PollEngine e) w =
     (threads w (pe_thread e) = Some (EventLoop (load w (pe_pollfds e) (pollfd_fd 0))))"
| "engine_listens (EpollEngine e) w = (threads w (ee_thread e) = Some (EventLoop (ee_efd e)))"
| "engine_listens (IoUringEngine e) w = (threads w (ue_thread e) = Some (EventLoop (ue_efd e)))"
| "engine_listens (ThreadsEngine e) w = True"

text \<open>The engines that exist side by side in a world, as \<open>create_engines\<close> builds them
  one after the other: each one's worker listens, no heap block and no thread belongs
  to two of them, and all their blocks and threads are ones \<open>malloc\<close> and
  \<open>pthread_create\<close> have handed out.\<close>

definition engines_live :: "engine list \<Rightarrow> world \<Rightarrow> bool" where
  "engines_live es w =
     (list_all (\<lambda>e. engine_listens e w) es
      \<and> distinct (concat (map engine_blocks es))
      \<and> distinct (concat (map (\<lambda>e. engine_threads e w) es))
      \<and> list_all (\<lambda>b. b < next_blk w) (concat (map engine_blocks es))
      \<and> list_all (\<lambda>t. t < next_tid w) (concat (map (\<lambda>e. engine_threads e w) es)))"

text \<open>What an action acquires and what it gives back. \<open>held_after\<close> reads a list of
  actions from the left, keeping what is held with the most recent acquisition first;
  its result is \<open>None\<close> as soon as something is given back that is not the most recent
  acquisition still held.\<close>

datatype resource = Block blk | Descriptor fd | Semaphore | Ring | Thread tid

fun acquired :: "action \<Rightarrow> resource list" where
  "acquired (ActMalloc b) = [Block b]"
| "acquired (ActEventfd d) = [Descriptor d]"
| "acquired (ActEpollCreate d) = [Descriptor d]"
| "acquired (ActSocketpair a b) = [Descriptor a, Descriptor b]"
| "acquired ActQueueInit = [Ring]"
| "acquired ActSemInit = [Semaphore]"
| "acquired (ActSpawn t) = [Thread t]"
| "acquired a = []"

fun released :: "action \<Rightarrow> resource option" where
  "released (ActFree b) = Some (Block b)"
| "released (ActClose d) = Some (Descriptor d)"
| "released ActQueueExit = Some Ring"
| "released ActSemDestroy = Some Semaphore"
| "released (ActJoin t) = Some (Thread t)"
| "released a = None"



section \<open>The worker threads\<close>

text \<open>
  A worker is an endless loop around a blocking call. What the kernel hands back at
  each return of that call is a \<open>wakeup\<close>: the call's return value, the descriptors
  it reports (set bits for \<open>select\<close>, \<open>POLLIN\<close> entries for \<open>poll\<close>, the
  \<open>events\<close> array for \<open>epoll_wait\<close>, the completions for io_uring, in their order),
  and what each \<open>read\<close> of that pass returns. A thread function maps the wakeups it
  lives through to the calls it issues, and says whether it has returned.
\<close>

datatype io = Post | Wait | Read fd nat | Write fd nat | Requeue fd

record wakeup =
  wk_ret :: int
  wk_ready :: "fd list"
  wk_read :: "fd \<Rightarrow> int"

definition emit :: "io list \<Rightarrow> bool \<times> io list \<Rightarrow> bool \<times> io list" where
  "emit ios r = (fst r, ios @ snd r)"

text \<open>The scan \<open>for (i = 0; ret > 0 && i < num_fds; i++)\<close> of \<open>select_thread\<close>, from index
  \<open>i\<close> on; the eventfd is entry 0.\<close>

fun select_scan :: "nat \<Rightarrow> wakeup \<Rightarrow> int \<Rightarrow> nat \<Rightarrow> fd list \<Rightarrow> bool \<times> io list" where
  "select_scan ms k ret i [] = (False, [])"
| "select_scan ms k ret i (d # ds) =
     (if ret \<le> 0 then (False, [])
      else if d \<notin> set (wk_ready k) then select_scan ms k ret (Suc i) ds
      else if i = 0
      then (if wk_read k d \<noteq> 8
            then emit [Read d 8] (select_scan ms k ret (Suc i) ds)
            else (True, [Read d 8]))
      else if wk_read k d \<le> 0
      then emit [Read d ms] (select_scan ms k ret (Suc i) ds)
      else emit [Read d ms, Write d ms] (select_scan ms k (ret - 1) (Suc i) ds))"

fun select_loop :: "nat \<Rightarrow> fd list \<Rightarrow> wakeup list \<Rightarrow> bool \<times> io list" where
  "select_loop ms fds [] = (False, [])"
| "select_loop ms fds (k # ks) =
     (case select_scan ms k (wk_ret k) 0 fds of
        (True, ios) \<Rightarrow> (True, Wait # ios)
      | (False, ios) \<Rightarrow> emit (Wait # ios) (select_loop ms fds ks))"

definition select_thread :: "nat \<Rightarrow> fd list \<Rightarrow> wakeup list \<Rightarrow> bool \<times> io list" where
  "select_thread ms fds ks = emit [Post] (select_loop ms fds ks)"

text \<open>\<open>poll_thread\<close> scans its array the same way, testing \<open>revents & POLLIN\<close>.\<close>

fun poll_scan :: "nat \<Rightarrow> wakeup \<Rightarrow> int \<Rightarrow> nat \<Rightarrow> fd list \<Rightarrow> bool \<times> io list" where
  "poll_scan ms k ret i [] = (False, [])"
| "poll_scan ms k ret i (d # ds) =
     (if ret \<le> 0 then (False, [])
      else if d \<notin> set (wk_ready k) then poll_scan ms k ret (Suc i) ds
      else if i = 0
      then (if wk_read k d \<noteq> 8
            then emit [Read d 8] (poll_scan ms k ret (Suc i) ds)
            else (True, [Read d 8]))
      else if wk_read k d \<le> 0
      then emit [Read d ms] (poll_scan ms k ret (Suc i) ds)
      else emit [Read d ms, Write d ms] (poll_scan ms k (ret - 1) (Suc i) ds))"

fun poll_loop :: "nat \<Rightarrow> fd list \<Rightarrow> wakeup list \<Rightarrow> bool \<times> io list" where
  "poll_loop ms fds [] = (False, [])"
| "poll_loop ms fds (k # ks) =
     (case poll_scan ms k (wk_ret k) 0 fds of
        (True, ios) \<Rightarrow> (True, Wait # ios)
      | (False, ios) \<Rightarrow> emit (Wait # ios) (poll_loop ms fds ks))"

definition poll_thread :: "nat \<Rightarrow> fd list \<Rightarrow> wakeup list \<Rightarrow> bool \<times> io list" where
  "poll_thread ms fds ks = emit [Post] (poll_loop ms fds ks)"

text \<open>\<open>epoll_thread\<close>: \<open>for (i = 0; i < ret; i++)\<close> over \<open>events[i].data.fd\<close>.\<close>

fun epoll_events :: "nat \<Rightarrow> fd \<Rightarrow> wakeup \<Rightarrow> fd list \<Rightarrow> bool \<times> io list" where
  "epoll_events ms efd k [] = (False, [])"
| "epoll_events ms efd k (d # ds) =
     (if d = efd
      then (if wk_read k d \<noteq> 8
            then emit [Read d 8] (epoll_events ms efd k ds)
            else (True, [Read d 8]))
      else if wk_read k d \<le> 0
      then emit [Read d ms] (epoll_events ms efd k ds)
      else emit [Read d ms, Write d ms] (epoll_events ms efd k ds))"

fun epoll_loop :: "nat \<Rightarrow> fd \<Rightarrow> wakeup list \<Rightarrow> bool \<times> io list" where
  "epoll_loop ms efd [] = (False, [])"
| "epoll_loop ms efd (k # ks) =
     (case epoll_events ms efd k (take (nat (wk_ret k)) (wk_ready k)) of
        (True, ios) \<Rightarrow> (True, Wait # ios)
      | (False, ios) \<Rightarrow> emit (Wait # ios) (epoll_loop ms efd ks))"

definition epoll_thread :: "nat \<Rightarrow> fd \<Rightarrow> wakeup list \<Rightarrow> bool \<times> io list" where
  "epoll_thread ms efd ks = emit [Post] (epoll_loop ms efd ks)"

text \<open>\<open>io_uring_thread\<close>: every completion that does not stop the thread ends at
  \<open>requeue:\<close>, which queues a fresh one-shot poll for the same descriptor.\<close>

fun io_uring_cqes :: "nat \<Rightarrow> fd \<Rightarrow> wakeup \<Rightarrow> fd list \<Rightarrow> bool \<times> io list" where
  "io_uring_cqes ms efd k [] = (False, [])"
| "io_uring_cqes ms efd k (d # ds) =
     (if d = efd
      then (if wk_read k d \<noteq> 8
            then emit [Read d 8, Requeue d] (io_uring_cqes ms efd k ds)
            else (True, [Read d 8]))
      else if wk_read k d \<le> 0
      then emit [Read d ms, Requeue d] (io_uring_cqes ms efd k ds)
      else emit [Read d ms, Write d ms, Requeue d] (io_uring_cqes ms efd k ds))"

fun io_uring_loop :: "nat \<Rightarrow> fd \<Rightarrow> wakeup list \<Rightarrow> bool \<times> io list" where
  "io_uring_loop ms efd [] = (False, [])"
| "io_uring_loop ms efd (k # ks) =
     (case io_uring_cqes ms efd k (wk_ready k) of
        (True, ios) \<Rightarrow> (True, Wait # ios)
      | (False, ios) \<Rightarrow> emit (Wait # ios) (io_uring_loop ms efd ks))"

definition io_uring_thread :: "nat \<Rightarrow> fd \<Rightarrow> wakeup list \<Rightarrow> bool \<times> io list" where
  "io_uring_thread ms efd ks = emit [Post] (io_uring_loop ms efd ks)"

text \<open>\<open>threads_fd_thread\<close>: the blocking \<open>read\<close> is the wait; the list holds what each
  \<open>read\<close> returns. The function has no \<open>return\<close> inside its loop.\<close>

fun threads_fd_loop :: "nat \<Rightarrow> fd \<Rightarrow> int list \<Rightarrow> io list" where
  "threads_fd_loop ms d [] = []"
| "threads_fd_loop ms d (r # rs) =
     (if r \<noteq> int ms then Read d ms # threads_fd_loop ms d rs
      else Read d ms # Write d ms # threads_fd_loop ms d rs)"

definition threads_fd_thread :: "nat \<Rightarrow> fd \<Rightarrow> int list \<Rightarrow> bool \<times> io list" where
  "threads_fd_thread ms d rs = (False, Post # threads_fd_loop ms d rs)"

section \<open>The start-up handshake\<close>

text \<open>
  \<open>create\<close> and its workers meet at \<open>startup_semaphore\<close>. The creator is about to spawn
  worker \<open>i\<close>, or sits in \<open>sem_wait\<close> for it, or has returned the engine; a worker
  has not yet reached \<open>sem_post\<close>, or has posted and not yet called its blocking
  primitive, or is inside it. The scheduler picks who moves; a move that is not
  enabled leaves the state as it is. \<open>n\<close> is the number of workers: one for the four
  event engines, \<open>num_fds\<close> for the thread-per-descriptor engine.
\<close>

datatype creator_pc = Spawning nat | Waiting nat | Returned

datatype worker_pc = Started | Posted | InWait

datatype actor = Creator | Worker nat

record handshake =
  creator :: creator_pc
  sem :: nat
  workers :: "worker_pc list"

definition hs_init :: handshake where
  "hs_init = \<lparr>creator = Spawning 0, sem = 0, workers = []\<rparr>"

fun hs_step :: "nat \<Rightarrow> actor \<Rightarrow> handshake \<Rightarrow> handshake" where
  "hs_step n Creator s =
     (case creator s of
        Spawning i \<Rightarrow>
          if i < n then s\<lparr>creator := Waiting i, workers := workers s @ [Started]\<rparr>
          else s\<lparr>creator := Returned\<rparr>
      | Waiting i \<Rightarrow>
          if 0 < sem s then s\<lparr>creator := Spawning (Suc i), sem := sem s - 1\<rparr> else s
      | Returned \<Rightarrow> s)"
| "hs_step n (Worker j) s =
     (if j < length (workers s)
      then (case workers s ! j of
              Started \<Rightarrow> s\<lparr>sem := Suc (sem s), workers := (workers s)[j := Posted]\<rparr>
            | Posted \<Rightarrow> s\<lparr>workers := (workers s)[j := InWait]\<rparr>
            | InWait \<Rightarrow> s)
      else s)"

definition hs_run :: "nat \<Rightarrow> actor list \<Rightarrow> handshake" where
  "hs_run n sched = foldl (\<lambda>s a. hs_step n a s) hs_init sched"

text \<open>What holds of the handshake at every moment: between spawns nobody is short of
  a post and the semaphore is empty; while the creator waits for worker \<open>i\<close>, that
  worker alone may still be before its \<open>sem_post\<close>, and the semaphore holds its post
  exactly when it is past it.\<close>

definition hs_inv :: "nat \<Rightarrow> handshake \<Rightarrow> bool" where
  "hs_inv n s =
     (case creator s of
        Spawning i \<Rightarrow>
          length (workers s) = i \<and> i \<le> n \<and> sem s = 0
          \<and> (\<forall>j<length (workers s). workers s ! j \<noteq> Started)
      | Waiting i \<Rightarrow>
          length (workers s) = Suc i \<and> i < n
          \<and> (\<forall>j<i. workers s ! j \<noteq> Started)
          \<and> sem s = (if workers s ! i = Started then 0 else 1)
      | Returned \<Rightarrow>
          length (workers s) = n \<and> sem s = 0
          \<and> (\<forall>j<length (workers s). workers s ! j \<noteq> Started))"

section \<open>iogen.c\<close>

record iogen =
  ig_engine_fds :: "blk option"
  ig_iogen_fds :: "blk option"
  ig_num_fds :: nat
  ig_msgbuf :: "blk option"
  ig_msg_size :: nat
  ig_random_seed :: int
  ig_num_ios :: "64 word"

datatype init_status = InitOk | InitError string | InitUndefined

text \<open>\<open>free(NULL)\<close> does nothing.\<close>

definition free_ptr :: "blk option \<Rightarrow> world \<Rightarrow> world" where
  "free_ptr p w = (case p of None \<Rightarrow> w | Some b \<Rightarrow> free b w)"

text \<open>The loop that opens the socket pairs. When \<open>socketpair\<close> fails at \<open>i > 0\<close> the
  \<open>while (i-- > 0)\<close> body runs once, for pair \<open>i - 1\<close>, and returns; at \<open>i = 0\<close> the body
  is skipped with \<open>i = -1\<close> and the code goes on to write \<open>g->engine_fds[-1]\<close>.\<close>

fun iogen_pairs :: "env \<Rightarrow> blk \<Rightarrow> blk \<Rightarrow> blk \<Rightarrow> nat list \<Rightarrow> world \<Rightarrow> init_status \<times> world"
  where
  "iogen_pairs env efds ifds mb [] w = (InitOk, w)"
| "iogen_pairs env efds ifds mb (i # is) w =
     (case socketpair (socketpair_ret env i) w of
        (None, w1) \<Rightarrow>
          (case i of
             0 \<Rightarrow> (InitUndefined, w1)
           | Suc j \<Rightarrow>
               (InitError ''socketpair failed\<newline>'',
                free mb (free ifds (free efds
                  (close_fd (load w1 ifds j) (close_fd (load w1 efds j) w1))))))
      | (Some (a, b), w1) \<Rightarrow>
          iogen_pairs env efds ifds mb is
            (set_nonblocking (load (store ifds i b (store efds i a w1)) efds i)
               (store ifds i b (store efds i a w1))))"

definition iogen_init ::
  "env \<Rightarrow> iogen \<Rightarrow> options \<Rightarrow> world \<Rightarrow> init_status \<times> iogen \<times> world" where
  "iogen_init env g opts w =
     (case malloc (malloc_fails env 0) (num_fds opts) w of
        (efds, w1) \<Rightarrow>
          (case malloc (malloc_fails env 1) (num_fds opts) w1 of
             (ifds, w2) \<Rightarrow>
               (case calloc (malloc_fails env 2) (msg_size opts) w2 of
                  (mb, w3) \<Rightarrow>
                    (case (efds, ifds, mb) of
                       (Some e, Some i, Some m) \<Rightarrow>
                         (case iogen_pairs env e i m [0..<num_fds opts] w3 of
                            (st, w4) \<Rightarrow>
                              (st,
                               g\<lparr>ig_engine_fds := efds, ig_iogen_fds := ifds,
                                 ig_num_fds := num_fds opts, ig_msgbuf := mb,
                                 ig_msg_size := msg_size opts,
                                 ig_random_seed := gettid_ret env\<rparr>,
                               w4))
                     | _ \<Rightarrow>
                         (InitError ''Out of memory'',
                          g\<lparr>ig_engine_fds := efds, ig_iogen_fds := ifds,
                            ig_num_fds := num_fds opts, ig_msgbuf := mb,
                            ig_msg_size := msg_size opts,
                            ig_random_seed := gettid_ret env\<rparr>,
                          free_ptr mb (free_ptr ifds (free_ptr efds w3)))))))"

text \<open>The descriptors \<open>socketpair\<close> hands out for the pairs with the given indices, in
  order. The kernel never hands out a descriptor that is open, so these are
  distinct.\<close>

definition pair_fds :: "env \<Rightarrow> nat list \<Rightarrow> fd list" where
  "pair_fds env is =
     concat (map (\<lambda>i. case socketpair_ret env i of None \<Rightarrow> [] | Some (a, b) \<Rightarrow> [a, b]) is)"

text \<open>
  One turn of the loop of \<open>iogen_run\<close>, as the outside world shapes it: the value of
  \<open>*stop\<close> at the loop test, after the \<open>write\<close> and after the \<open>read\<close>, what the two calls
  return, and the number \<open>random_r\<close> delivers.
\<close>

record turn =
  stop_at_test :: bool
  write_ret :: int
  stop_after_write :: bool
  read_ret :: int
  stop_after_read :: bool
  random_r_out :: int

datatype ending = Stopped | WriteFailed | ReadFailed

text \<open>The loop, started at channel index \<open>fd\<close>. The result is how the loop ended, the
  generator, and the channel index of every \<open>write\<close> issued; \<open>None\<close> is a loop still
  running when the turns are used up. \<open>%\<close> is C's remainder, \<open>smod\<close>.\<close>

fun iogen_run_loop :: "turn list \<Rightarrow> int \<Rightarrow> iogen \<Rightarrow> (ending \<times> iogen \<times> int list) option" where
  "iogen_run_loop [] fd g = None"
| "iogen_run_loop (t # ts) fd g =
     (if stop_at_test t then Some (Stopped, g, [])
      else if stop_after_write t then Some (Stopped, g, [fd])
      else if write_ret t \<noteq> int (ig_msg_size g) then Some (WriteFailed, g, [fd])
      else if stop_after_read t then Some (Stopped, g, [fd])
      else if read_ret t \<noteq> int (ig_msg_size g) then Some (ReadFailed, g, [fd])
      else map_option (\<lambda>(e, g', chans). (e, g', fd # chans))
             (iogen_run_loop ts (random_r_out t smod int (ig_num_fds g))
                (g\<lparr>ig_num_ios := ig_num_ios g + 1\<rparr>)))"

definition iogen_run :: "iogen \<Rightarrow> turn list \<Rightarrow> (ending \<times> iogen \<times> int list) option" where
  "iogen_run g ts = iogen_run_loop ts 0 g"

text \<open>A turn in which the round trip completes: the stop flag is never seen set and
  both calls transfer \<open>msg_size\<close> bytes.\<close>

definition full_turn :: "iogen \<Rightarrow> turn \<Rightarrow> bool" where
  "full_turn g t =
     (\<not> stop_at_test t \<and> \<not> stop_after_write t \<and> write_ret t = int (ig_msg_size g)
      \<and> \<not> stop_after_read t \<and> read_ret t = int (ig_msg_size g))"

text \<open>The \<open>Total Roundtrips\<close> column of \<open>iogen_print_stats\<close>: \<open>g->num_ios\<close> under \<open>%lu\<close>.\<close>

definition total_roundtrips :: "iogen \<Rightarrow> nat" where
  "total_roundtrips g = unat (ig_num_ios g)"

section \<open>main.c\<close>

text \<open>
  What \<open>getopt_long\<close> hands the option loop of \<open>parse_options\<close>, one entry per call
  until it returns \<open>-1\<close>: the value of the matched long option together with \<open>optarg\<close>
  (for the four numeric options, the \<open>unsigned long\<close> that \<open>strtoul(optarg, NULL, 10)\<close>
  makes of it), \<open>'?'\<close> for \<open>--help\<close> and for whatever \<open>getopt_long\<close> does not accept, or
  some other value.
\<close>

datatype getopt =
    OPTION_ENGINE string
  | OPTION_NUM_ENGINES nat
  | OPTION_NUM_FDS nat
  | OPTION_MSG_SIZE nat
  | OPTION_EXCLUSIVE string
  | OPTION_DURATION_SECS nat
  | Question
  | Other int

definition LONG_MAX :: nat where
  "LONG_MAX = 2 ^ 63 - 1"

text \<open>\<open>struct options\<close> as \<open>parse_options\<close> fills it. The three counts are \<open>int\<close> members,
  and the assignment of an \<open>unsigned long\<close> to them keeps its low 32 bits; \<open>msg_size\<close>
  is a \<open>size_t\<close>. The record \<open>options\<close> holds the same members with the counts as
  natural numbers, which they are whenever none of them is negative.\<close>

record c_options =
  co_engine_ops :: backend
  co_num_engines :: int
  co_num_fds :: int
  co_msg_size :: nat
  co_exclusive :: bool
  co_duration_secs :: int

definition to_int :: "nat \<Rightarrow> int" where
  "to_int n = sint (word_of_nat n :: 32 word)"

definition options_of :: "c_options \<Rightarrow> options" where
  "options_of co =
     \<lparr>engine_ops = co_engine_ops co, num_engines = nat (co_num_engines co),
      num_fds = nat (co_num_fds co), msg_size = co_msg_size co,
      exclusive = co_exclusive co, duration_secs = nat (co_duration_secs co)\<rparr>"

definition defaults :: c_options where
  "defaults =
     \<lparr>co_engine_ops = Select, co_num_engines = 1, co_num_fds = 1, co_msg_size = 1,
      co_exclusive = False, co_duration_secs = 30\<rparr>"

text \<open>The lines \<open>usage\<close> prints to \<open>stderr\<close>, and \<open>%d\<close>.\<close>

definition usage :: "string \<Rightarrow> string list" where
  "usage argv0 =
     [''Usage: '' @ argv0 @ '' [OPTION]...'',
      ''Perform file descriptor monitoring benchmarking.'',
      '''',
      ''  --duration-secs=<int>  run for number of seconds (default: 30)'',
      ''  --engine=epoll|poll|select'',
      ''                         set fd monitoring engine (default: select)'',
      ''  --exclusive=0|1        use EPOLLEXCLUSIVE (default: 0)'',
      ''  --help                 print this help'',
      ''  --msg-size             number of bytes per message (default: 1)'',
      ''  --num-engines          number of engine instances (default: 1)'',
      ''  --num-fds              number of file descriptors (default: 1)'',
      '''',
      ''This program is released under the GNU General Public License v3.0 or later.'']"

fun decimal :: "nat \<Rightarrow> string" where
  "decimal n =
     (if n < 10 then [char_of (48 + n)]
      else decimal (n div 10) @ [char_of (48 + n mod 10)])"

definition percent_d :: "int \<Rightarrow> string" where
  "percent_d i = (if i < 0 then CHR ''-'' # decimal (nat (- i)) else decimal (nat i))"

text \<open>The loop \<open>for (;;)\<close> of \<open>parse_options\<close> over the values \<open>getopt_long\<close> returns. The
  table \<open>engines[]\<close> it searches by name holds the epoll, poll and select engines and
  no other. The result is whether the loop ran to its end, the options as they stand,
  and the lines printed to \<open>stderr\<close>.\<close>

fun option_loop :: "string \<Rightarrow> getopt list \<Rightarrow> c_options \<Rightarrow> bool \<times> c_options \<times> string list"
  where
  "option_loop argv0 [] opts = (True, opts, [])"
| "option_loop argv0 (OPTION_ENGINE optarg # cs) opts =
     (case find (\<lambda>b. optarg = name b) [Epoll, Poll, Select] of
        None \<Rightarrow> (False, opts, ''Unknown engine'' # usage argv0)
      | Some b \<Rightarrow> option_loop argv0 cs (opts\<lparr>co_engine_ops := b\<rparr>))"
| "option_loop argv0 (OPTION_NUM_ENGINES ret # cs) opts =
     (if LONG_MAX < ret \<or> ret = 0
      then (False, opts, ''Invalid number of engines'' # usage argv0)
      else option_loop argv0 cs (opts\<lparr>co_num_engines := to_int ret\<rparr>))"
| "option_loop argv0 (OPTION_NUM_FDS ret # cs) opts =
     (if LONG_MAX < ret \<or> ret = 0
      then (False, opts, ''Invalid number of fds'' # usage argv0)
      else option_loop argv0 cs (opts\<lparr>co_num_fds := to_int ret\<rparr>))"
| "option_loop argv0 (OPTION_MSG_SIZE ret # cs) opts =
     (if LONG_MAX < ret \<or> ret = 0
      then (False, opts, ''Invalid message size'' # usage argv0)
      else option_loop argv0 cs (opts\<lparr>co_msg_size := ret\<rparr>))"
| "option_loop argv0 (OPTION_EXCLUSIVE optarg # cs) opts =
     (if optarg = ''0'' then option_loop argv0 cs (opts\<lparr>co_exclusive := False\<rparr>)
      else if optarg = ''1'' then option_loop argv0 cs (opts\<lparr>co_exclusive := True\<rparr>)
      else (False, opts, ''The value of exclusive must be 0 or 1'' # usage argv0))"
| "option_loop argv0 (OPTION_DURATION_SECS ret # cs) opts =
     (if LONG_MAX < ret \<or> ret = 0
      then (False, opts, ''Invalid duration-secs value'' # usage argv0)
      else option_loop argv0 cs (opts\<lparr>co_duration_secs := to_int ret\<rparr>))"
| "option_loop argv0 (Question # cs) opts = (False, opts, usage argv0)"
| "option_loop argv0 (Other c # cs) opts =
     (False, opts, [''unhandled getopt_long() return value '' @ percent_d c])"

text \<open>\<open>parse_options\<close>: the loop from the default values, then the test \<open>optind != argc\<close>
  (\<open>leftover\<close>: an argument that is no option is left), then the capability test.\<close>

definition parse_options ::
  "string \<Rightarrow> getopt list \<Rightarrow> bool \<Rightarrow> bool \<times> c_options \<times> string list" where
  "parse_options argv0 cs leftover =
     (case option_loop argv0 cs defaults of
        (False, opts, err) \<Rightarrow> (False, opts, err)
      | (True, opts, err) \<Rightarrow>
          if leftover then (False, opts, usage argv0)
          else if co_exclusive opts \<and> \<not> supports_exclusive (co_engine_ops opts)
          then (False, opts,
                [name (co_engine_ops opts) @ '' engine does not support exclusive=1''])
          else (True, opts, []))"

text \<open>\<open>create_engines\<close>: the array, then one \<open>create\<close> per index, each with the
  environment it meets; at the first that fails the engines built so far are destroyed
  from the last to the first and the array is freed. \<open>destroy_engines\<close> destroys them
  from the first to the last.\<close>

fun destroy_each :: "engine list \<Rightarrow> world \<Rightarrow> world option" where
  "destroy_each [] w = Some w"
| "destroy_each (e # es) w =
     (case destroy e w of
        None \<Rightarrow> None
      | Some w1 \<Rightarrow> destroy_each es w1)"

fun create_engines_loop ::
  "(nat \<Rightarrow> env) \<Rightarrow> options \<Rightarrow> blk \<Rightarrow> blk \<Rightarrow> nat list \<Rightarrow> engine list \<Rightarrow> world
     \<Rightarrow> (blk \<times> engine list) result \<times> world" where
  "create_engines_loop envs opts fds engines [] es w = (Engine (engines, es), w)"
| "create_engines_loop envs opts fds engines (i # is) es w =
     (case create (envs i) opts fds w of
        (Blocked, w1) \<Rightarrow> (Blocked, w1)
      | (Error m, w1) \<Rightarrow>
          (case destroy_each (rev es) w1 of
             None \<Rightarrow> (Blocked, w1)
           | Some w2 \<Rightarrow> (Error m, free engines w2))
      | (Engine e, w1) \<Rightarrow> create_engines_loop envs opts fds engines is (es @ [e]) w1)"

definition create_engines ::
  "bool \<Rightarrow> (nat \<Rightarrow> env) \<Rightarrow> options \<Rightarrow> blk \<Rightarrow> world
     \<Rightarrow> (blk \<times> engine list) result \<times> world" where
  "create_engines fails envs opts fds w =
     (case malloc fails (num_engines opts) w of
        (None, w1) \<Rightarrow> (Error ''Out of memory'', w1)
      | (Some engines, w1) \<Rightarrow>
          create_engines_loop envs opts fds engines [0..<num_engines opts] [] w1)"

definition destroy_engines :: "blk \<Rightarrow> engine list \<Rightarrow> world \<Rightarrow> world option" where
  "destroy_engines engines es w =
     (case destroy_each es w of
        None \<Rightarrow> None
      | Some w1 \<Rightarrow> Some (free engines w1))"

text \<open>\<open>iogen_cleanup\<close>\<close>

fun iogen_close :: "blk \<Rightarrow> blk \<Rightarrow> nat list \<Rightarrow> world \<Rightarrow> world" where
  "iogen_close efds ifds [] w = w"
| "iogen_close efds ifds (i # is) w =
     iogen_close efds ifds is (close_fd (load w ifds i) (close_fd (load w efds i) w))"

definition iogen_cleanup :: "iogen \<Rightarrow> world \<Rightarrow> world" where
  "iogen_cleanup g w =
     free_ptr (ig_msgbuf g) (free_ptr (ig_iogen_fds g) (free_ptr (ig_engine_fds g)
       (iogen_close (the (ig_engine_fds g)) (the (ig_iogen_fds g)) [0..<ig_num_fds g] w)))"

text \<open>
  \<open>main\<close>. What the process meets outside its own code is gathered in one record: the
  environment of \<open>iogen_init\<close>, whether the \<open>malloc\<close> of \<open>create_engines\<close> fails, the
  environment of each \<open>create\<close>, and the turns of the loop of \<open>iogen_run\<close>. A run ends
  with an exit status, the lines on \<open>stderr\<close>, the way the generator loop ended with the
  \<open>Total Roundtrips\<close> it printed (if the run got that far) and the world it leaves; or
  it does not come back from a \<open>pthread_join\<close>; or the loop of \<open>iogen_run\<close> is still
  running when the turns are used up; or \<open>iogen_init\<close> has written outside its arrays.
  A command line whose counts the conversion to \<open>int\<close> has brought below 1 is not
  followed further.
\<close>

record outside =
  init_env :: env
  engines_malloc_fails :: bool
  engine_env :: "nat \<Rightarrow> env"
  turns :: "turn list"

datatype exit_status = EXIT_SUCCESS | EXIT_FAILURE

datatype run =
    Exit exit_status "string list" "(ending \<times> nat) option" world
  | Joining
  | Running
  | Undefined
  | Not_followed

definition main :: "outside \<Rightarrow> string \<Rightarrow> getopt list \<Rightarrow> bool \<Rightarrow> iogen \<Rightarrow> world \<Rightarrow> run" where
  "main out argv0 cs leftover g0 w =
     (case parse_options argv0 cs leftover of
        (False, co, err) \<Rightarrow> Exit EXIT_FAILURE err None w
      | (True, co, err) \<Rightarrow>
          if co_num_engines co < 1 \<or> co_num_fds co < 1 \<or> co_duration_secs co < 1
          then Not_followed
          else
            (case iogen_init (init_env out) g0 (options_of co) w of
               (InitUndefined, g, w1) \<Rightarrow> Undefined
             | (InitError m, g, w1) \<Rightarrow> Exit EXIT_FAILURE (err @ [m]) None w1
             | (InitOk, g, w1) \<Rightarrow>
                 (case create_engines (engines_malloc_fails out) (engine_env out)
                         (options_of co) (the (ig_engine_fds g)) w1 of
                    (Blocked, w2) \<Rightarrow> Joining
                  | (Error m, w2) \<Rightarrow> Exit EXIT_FAILURE (err @ [m]) None (iogen_cleanup g w2)
                  | (Engine (engines, es), w2) \<Rightarrow>
                      (case iogen_run g (turns out) of
                         None \<Rightarrow> Running
                       | Some (e, g1, chans) \<Rightarrow>
                           (case destroy_engines engines es w2 of
                              None \<Rightarrow> Joining
                            | Some w3 \<Rightarrow>
                                Exit EXIT_SUCCESS err (Some (e, total_roundtrips g1))
                                  (iogen_cleanup g1 w3))))))"

section \<open>A concrete run\<close>

text \<open>
  An environment in which every call succeeds, the kernel numbering the descriptors
  as it does for a fresh process with one channel: the socket pair is \<open>(4, 5)\<close>, the
  epoll instance 6, the eventfd 7; \<open>sem_wait\<close> is interrupted once before it succeeds.
  \<open>iogen_stack\<close> is the \<open>struct iogen\<close> of \<open>main\<close> before \<open>iogen_init\<close>: a local variable
  without initialiser, so its members hold whatever the stack held.
\<close>

definition env_ok :: env where
  "env_ok =
     \<lparr>malloc_fails = (\<lambda>_. False), eventfd_ret = 7, epoll_create1_ret = 6,
      epoll_ctl_fails = (\<lambda>_. False), queue_init_fails = False, submit_fails = False,
      sem_init_fails = False, pthread_create_fails = (\<lambda>_. False),
      sem_wait_eintr = (\<lambda>_. 1), sem_wait_fails = (\<lambda>_. False),
      gettid_ret = 1000,
      socketpair_ret = (\<lambda>i. Some (4 + 2 * int i, 5 + 2 * int i))\<rparr>"

definition env_sem_wait_fails :: env where
  "env_sem_wait_fails = env_ok\<lparr>sem_wait_fails := (\<lambda>_. True)\<rparr>"


definition world_empty :: world where
  "world_empty =
     \<lparr>blocks = (\<lambda>_. None), next_blk = 0, open_fds = [], nonblock = (\<lambda>_. False),
      efd_count = (\<lambda>_. 0), rings = 0, sems = 0, threads = (\<lambda>_. None),
      cancelled = (\<lambda>_. False), next_tid = 0, log = []\<rparr>"

definition opts1 :: "backend \<Rightarrow> bool \<Rightarrow> options" where
  "opts1 b x =
     \<lparr>engine_ops = b, num_engines = 1, num_fds = 1, msg_size = 1, exclusive = x,
      duration_secs = 30\<rparr>"

definition iogen_stack :: iogen where
  "iogen_stack =
     \<lparr>ig_engine_fds = None, ig_iogen_fds = None, ig_num_fds = 0, ig_msgbuf = None,
      ig_msg_size = 0, ig_random_seed = 0, ig_num_ios = 5\<rparr>"

text \<open>The world \<open>iogen_init\<close> leaves behind in that environment: \<open>engine_fds\<close> is block 0,
  \<open>iogen_fds\<close> block 1 and the message buffer block 2.\<close>

definition world1 :: world where
  "world1 =
     \<lparr>blocks = [0 \<mapsto> [4], 1 \<mapsto> [5], 2 \<mapsto> [0]], next_blk = 3, open_fds = [4, 5],
      nonblock = (\<lambda>_. False)(4 := True), efd_count = (\<lambda>_. 0), rings = 0, sems = 0,
      threads = (\<lambda>_. None), cancelled = (\<lambda>_. False), next_tid = 0,
      log = [ActMalloc 0, ActMalloc 1, ActMalloc 2, ActSocketpair 4 5,
             ActSetNonblocking 4]\<rparr>"

text \<open>A generator over two channels with one-byte messages, and three shapes of a
  turn of its loop: a full round trip after which \<open>random_r\<close> delivers \<open>r\<close>, the stop
  flag found set at the loop test, and a read that comes back one byte short.\<close>

definition iogen_two :: iogen where
  "iogen_two =
     \<lparr>ig_engine_fds = Some 0, ig_iogen_fds = Some 1, ig_num_fds = 2, ig_msgbuf = Some 2,
      ig_msg_size = 1, ig_random_seed = 1000, ig_num_ios = 0\<rparr>"

definition turn_ok :: "int \<Rightarrow> turn" where
  "turn_ok r =
     \<lparr>stop_at_test = False, write_ret = 1, stop_after_write = False, read_ret = 1,
      stop_after_read = False, random_r_out = r\<rparr>"

definition turn_stop :: turn where
  "turn_stop =
     \<lparr>stop_at_test = True, write_ret = 0, stop_after_write = True, read_ret = 0,
      stop_after_read = True, random_r_out = 0\<rparr>"

text \<open>What a run of \<open>main\<close> meets when every call succeeds and the alarm has gone off
  by the first test of the generator loop.\<close>

definition outside_ok :: outside where
  "outside_ok =
     \<lparr>init_env = env_ok, engines_malloc_fails = False, engine_env = (\<lambda>_. env_ok),
      turns = [turn_stop]\<rparr>"

text \<open>A wake-up that reports descriptor 5 alone, whose \<open>read\<close> returns one byte.\<close>

definition wakeup_short :: wakeup where
  "wakeup_short = \<lparr>wk_ret = 1, wk_ready = [5], wk_read = (\<lambda>_. 1)\<rparr>"

text \<open>A wake-up that reports the control descriptor 3 and the data descriptor 5, the
  control descriptor first, every \<open>read\<close> returning eight bytes.\<close>

definition wakeup_stop :: wakeup where
  "wakeup_stop = \<lparr>wk_ret = 2, wk_ready = [3, 5], wk_read = (\<lambda>_. 8)\<rparr>"

section \<open>Unfolding rules\<close>

lemmas prim_defs =
  malloc_def calloc_def free_def store_def memcpy_def eventfd_def close_fd_def
  sem_init_def sem_destroy_def pthread_create_def pthread_join_def pthread_cancel_def
  signal_eventfd_def set_blocking_def set_nonblocking_def epoll_create1_def
  epoll_ctl_add_def io_uring_queue_init_def io_uring_queue_exit_def io_uring_submit_def
  io_uring_add_poll_sqe_def socketpair_def

lemmas select_defs =
  select_create_def select_start_def select_err_free_se_def select_err_free_msgbuf_def
  select_err_free_fds_def select_err_close_eventfd_def select_err_sem_destroy_def
  select_err_pthread_join_def

lemmas poll_defs =
  poll_create_def poll_start_def poll_err_free_se_def poll_err_free_msgbuf_def
  poll_err_free_pollfds_def poll_err_close_eventfd_def poll_err_sem_destroy_def
  poll_err_pthread_join_def

lemmas epoll_defs =
  epoll_do_create_def epoll_start_def epoll_err_free_se_def epoll_err_free_msgbuf_def
  epoll_err_close_epfd_def epoll_err_close_eventfd_def epoll_err_sem_destroy_def
  epoll_err_pthread_join_def

lemmas io_uring_defs =
  io_uring_create_def io_uring_start_def io_uring_err_free_se_def
  io_uring_err_free_msgbuf_def io_uring_err_queue_exit_def io_uring_err_close_eventfd_def
  io_uring_err_sem_destroy_def io_uring_err_pthread_join_def

lemmas threads_defs =
  threads_create_def threads_err_free_se_def threads_err_free_msgbuf_def
  threads_err_free_threads_def threads_err_sem_destroy_def threads_err_cancel_threads_def

text \<open>\<open>create\<close> is one of the five constructors; a fact about all five is a fact
  about \<open>create\<close>.\<close>

lemma create_cases:
  assumes "create env opts fds w = (r, w')"
  obtains
    (Select) r0 where "engine_ops opts = Select" "select_create env opts fds w = (r0, w')"
      "r = map_result SelectEngine r0"
  | (Poll) r0 where "engine_ops opts = Poll" "poll_create env opts fds w = (r0, w')"
      "r = map_result PollEngine r0"
  | (Epoll) r0 where "engine_ops opts = Epoll" "epoll_do_create env opts fds w = (r0, w')"
      "r = map_result EpollEngine r0"
  | (Io_uring) r0 where "engine_ops opts = Io_uring"
      "io_uring_create env opts fds w = (r0, w')" "r = map_result IoUringEngine r0"
  | (Threads) r0 where "engine_ops opts = Threads"
      "threads_create env opts fds w = (r0, w')" "r = map_result ThreadsEngine r0"
proof (cases "engine_ops opts")
  case Select
  with assms show ?thesis
    by (cases "select_create env opts fds w") (auto simp: create_def intro: that(1))
next
  case Poll
  with assms show ?thesis
    by (cases "poll_create env opts fds w") (auto simp: create_def intro: that(2))
next
  case Epoll
  with assms show ?thesis
    by (cases "epoll_do_create env opts fds w") (auto simp: create_def intro: that(3))
next
  case Io_uring
  with assms show ?thesis
    by (cases "io_uring_create env opts fds w") (auto simp: create_def intro: that(4))
next
  case Threads
  with assms show ?thesis
    by (cases "threads_create env opts fds w") (auto simp: create_def intro: that(5))
qed

section \<open>The caller's descriptor array is only read\<close>

text \<open>Every block a constructor writes or frees is one it has just been handed by
  \<open>malloc\<close>, so a block that existed before the call keeps its cells.\<close>

lemma select_create_frame:
  "fds < next_blk w \<Longrightarrow> select_create env opts fds w = (r, w') \<Longrightarrow> blocks w' fds = blocks w fds"
  by (auto simp: select_defs prim_defs
           split: if_splits prod.splits option.splits bool.splits)

lemma poll_fill_frame: "p \<noteq> pfds \<Longrightarrow> blocks (poll_fill pfds fds is w) p = blocks w p"
  by (induction "is" arbitrary: w) (auto simp: store_def)

lemma poll_fill_next_blk: "next_blk (poll_fill pfds fds is w) = next_blk w"
  by (induction "is" arbitrary: w) (auto simp: store_def)

lemma poll_create_frame:
  "fds < next_blk w \<Longrightarrow> poll_create env opts fds w = (r, w') \<Longrightarrow> blocks w' fds = blocks w fds"
  by (auto simp: poll_defs prim_defs poll_fill_frame poll_fill_next_blk
           split: if_splits prod.splits option.splits bool.splits)

lemma epoll_register_blocks:
  "epoll_register env epfd excl ds w = (ok, w')
     \<Longrightarrow> blocks w' = blocks w \<and> next_blk w' = next_blk w"
  by (induction ds arbitrary: w)
     (auto simp: epoll_ctl_add_def split: if_splits prod.splits bool.splits)

lemma epoll_do_create_frame:
  "fds < next_blk w \<Longrightarrow> epoll_do_create env opts fds w = (r, w')
     \<Longrightarrow> blocks w' fds = blocks w fds"
  by (auto simp: epoll_defs prim_defs
           split: if_splits prod.splits option.splits bool.splits
           dest!: epoll_register_blocks)

lemma io_uring_add_all_blocks:
  "io_uring_add_all env excl ds p w = (p', w')
     \<Longrightarrow> blocks w' = blocks w \<and> next_blk w' = next_blk w"
  by (induction ds arbitrary: w p)
     (auto simp: io_uring_add_poll_sqe_def io_uring_submit_def
           split: if_splits prod.splits bool.splits)

lemma io_uring_create_frame:
  "fds < next_blk w \<Longrightarrow> io_uring_create env opts fds w = (r, w')
     \<Longrightarrow> blocks w' fds = blocks w fds"
  by (auto simp: io_uring_defs prim_defs
           split: if_splits prod.splits option.splits bool.splits
           dest!: io_uring_add_all_blocks)

lemma threads_cancel_down_blocks:
  "threads_cancel_down thr i w = Some w' \<Longrightarrow> blocks w' = blocks w"
  by (induction i arbitrary: w)
     (auto simp: pthread_join_def pthread_cancel_def split: if_splits option.splits)

lemma threads_spawn_frame:
  "p \<noteq> thr \<Longrightarrow> p \<noteq> te \<Longrightarrow> p \<noteq> msgbuf
     \<Longrightarrow> threads_spawn env opts te msgbuf thr fds is w = (r, w')
     \<Longrightarrow> blocks w' p = blocks w p"
  by (induction "is" arbitrary: w)
     (auto simp: threads_defs prim_defs
           split: if_splits prod.splits option.splits bool.splits
           dest!: threads_cancel_down_blocks)

lemma threads_create_frame:
  assumes "fds < next_blk w" and "threads_create env opts fds w = (r, w')"
  shows "blocks w' fds = blocks w fds"
proof -
  have sp: "\<And>w0. threads_spawn env opts (next_blk w) (Suc (next_blk w))
               (Suc (Suc (next_blk w))) fds [0..<num_fds opts] w0 = (r, w')
             \<Longrightarrow> blocks w' fds = blocks w0 fds"
    using assms(1) by (intro threads_spawn_frame) auto
  show ?thesis
    using assms
    by (auto simp: threads_defs prim_defs
             split: if_splits prod.splits option.splits bool.splits dest!: sp)
qed

text \<open>
  C10. For every backend, \<open>create\<close> never modifies the caller-supplied descriptor
  array: whatever the outcome (an engine, an error, or a call that does not come
  back), the block \<open>fds\<close> holds afterwards exactly the cells it held before, and so do
  its first \<open>num_fds\<close> entries. The array is any block that was allocated before the
  call.
\<close>

theorem create_keeps_caller_fds:
  assumes "fds < next_blk w" and "create env opts fds w = (r, w')"
  shows "blocks w' fds = blocks w fds
         \<and> load_array w' fds (num_fds opts) = load_array w fds (num_fds opts)"
proof -
  from assms(2) have "blocks w' fds = blocks w fds"
  proof (cases rule: create_cases)
    case (Select r0) with assms(1) show ?thesis by (auto dest: select_create_frame)
  next
    case (Poll r0) with assms(1) show ?thesis by (auto dest: poll_create_frame)
  next
    case (Epoll r0) with assms(1) show ?thesis by (auto dest: epoll_do_create_frame)
  next
    case (Io_uring r0) with assms(1) show ?thesis by (auto dest: io_uring_create_frame)
  next
    case (Threads r0) with assms(1) show ?thesis by (auto dest: threads_create_frame)
  qed
  then show ?thesis by (simp add: load_array_def)
qed

theorem create_keeps_caller_fds_witness:
  "(0::nat) < next_blk world1
   \<and> blocks (snd (create env_ok (opts1 Threads False) 0 world1)) 0 = Some [4]
   \<and> load_array (snd (create env_ok (opts1 Threads False) 0 world1)) 0 1 = [4]"
proof -
  have h: "(0::nat) < next_blk world1" by (simp add: world1_def)
  have n: "num_fds (opts1 Threads False) = 1" by (simp add: opts1_def)
  have b: "blocks world1 0 = Some [4]" by (simp add: world1_def)
  show ?thesis
    using h create_keeps_caller_fds [OF h surjective_pairing, of env_ok "opts1 Threads False"]
    by (simp add: n b load_array_def)
qed

section \<open>Descriptors an engine opens\<close>

lemma select_create_fds:
  assumes "select_create env opts fds w = (r, w')"
  shows "(case r of Engine e \<Rightarrow> open_fds w' = eventfd_ret env # open_fds w
          | Error m \<Rightarrow> open_fds w' = open_fds w
          | Blocked \<Rightarrow> open_fds w' = eventfd_ret env # open_fds w)
         \<and> rings w' = rings w"
  using assms
  by (auto simp: select_defs prim_defs load_def
           split: if_splits prod.splits option.splits bool.splits)

lemma poll_fill_open_fds: "open_fds (poll_fill pfds fds is w) = open_fds w"
  by (induction "is" arbitrary: w) (auto simp: store_def)

lemma poll_fill_rings: "rings (poll_fill pfds fds is w) = rings w"
  by (induction "is" arbitrary: w) (auto simp: store_def)

lemma poll_fill_None:
  "(blocks (poll_fill pfds fds is w) pfds = None) = (blocks w pfds = None)"
  by (induction "is" arbitrary: w) (auto simp: store_def)

lemma poll_fill_length:
  "length (the (blocks (poll_fill pfds fds is w) pfds)) = length (the (blocks w pfds))"
proof (induction "is" arbitrary: w)
  case Nil
  then show ?case by simp
next
  case (Cons i "is")
  show ?case
    by (cases "blocks w pfds") (simp_all add: Cons.IH store_def)
qed

lemma poll_create_fds:
  assumes "poll_create env opts fds w = (r, w')"
  shows "(case r of Engine e \<Rightarrow> open_fds w' = eventfd_ret env # open_fds w
          | Error m \<Rightarrow> open_fds w' = open_fds w
          | Blocked \<Rightarrow> open_fds w' = eventfd_ret env # open_fds w)
         \<and> rings w' = rings w"
  using assms
  by (auto simp: poll_defs prim_defs load_def poll_fill_open_fds poll_fill_rings pollfd_fd_def pollfd_events_def
          poll_fill_None poll_fill_length option.map_sel
           split: if_splits prod.splits option.splits bool.splits)


lemma epoll_register_fds:
  "epoll_register env epfd excl ds w = (ok, w')
     \<Longrightarrow> open_fds w' = open_fds w \<and> rings w' = rings w"
  by (induction ds arbitrary: w)
     (auto simp: epoll_ctl_add_def split: if_splits prod.splits bool.splits)

lemma epoll_do_create_fds:
  assumes "epoll_do_create env opts fds w = (r, w')"
  shows "(case r of
            Engine e \<Rightarrow> open_fds w' = eventfd_ret env # epoll_create1_ret env # open_fds w
          | Error m \<Rightarrow> open_fds w' = open_fds w
          | Blocked \<Rightarrow> open_fds w' = eventfd_ret env # epoll_create1_ret env # open_fds w)
         \<and> rings w' = rings w"
  using assms
  by (auto simp: epoll_defs prim_defs
           split: if_splits prod.splits option.splits bool.splits
           dest!: epoll_register_fds)

lemma io_uring_add_all_fds:
  "io_uring_add_all env excl ds p w = (p', w')
     \<Longrightarrow> open_fds w' = open_fds w \<and> rings w' = rings w"
  by (induction ds arbitrary: w p)
     (auto simp: io_uring_add_poll_sqe_def io_uring_submit_def
           split: if_splits prod.splits bool.splits)

lemma io_uring_create_fds:
  assumes "io_uring_create env opts fds w = (r, w')"
  shows "(case r of
            Engine e \<Rightarrow> open_fds w' = eventfd_ret env # open_fds w \<and> rings w' = Suc (rings w)
          | Error m \<Rightarrow> open_fds w' = open_fds w \<and> rings w' = rings w
          | Blocked \<Rightarrow> open_fds w' = eventfd_ret env # open_fds w \<and> rings w' = Suc (rings w))"
  using assms
  by (auto simp: io_uring_defs prim_defs
           split: if_splits prod.splits option.splits bool.splits
           dest!: io_uring_add_all_fds)

lemma threads_cancel_down_fds:
  "threads_cancel_down thr i w = Some w' \<Longrightarrow> open_fds w' = open_fds w \<and> rings w' = rings w"
  by (induction i arbitrary: w)
     (auto simp: pthread_join_def pthread_cancel_def split: if_splits option.splits)

lemma threads_spawn_fds:
  "threads_spawn env opts te msgbuf thr fds is w = (r, w')
     \<Longrightarrow> open_fds w' = open_fds w \<and> rings w' = rings w"
  by (induction "is" arbitrary: w)
     (auto simp: threads_defs prim_defs
           split: if_splits prod.splits option.splits bool.splits
           dest!: threads_cancel_down_fds)

lemma threads_create_fds:
  assumes "threads_create env opts fds w = (r, w')"
  shows "open_fds w' = open_fds w \<and> rings w' = rings w"
  using assms
  by (auto simp: threads_defs prim_defs
           split: if_splits prod.splits option.splits bool.splits
           dest!: threads_spawn_fds)

text \<open>
  C8, as the claim states it, fails: \<open>epoll_do_create\<close> opens two descriptors, the
  epoll instance (\<open>epoll_create1\<close>) and the eventfd, where the claim allows an engine
  one descriptor beyond the data channels.
\<close>

theorem epoll_do_create_opens_two:
  "fst (create env_ok (opts1 Epoll False) 0 world1)
     = Engine (EpollEngine \<lparr>ee_self = 3, ee_thread = 0, ee_msgbuf = 4, ee_msg_size = 1,
                 ee_efd = 7, ee_epfd = 6\<rparr>)
   \<and> open_fds world1 = [4, 5]
   \<and> open_fds (snd (create env_ok (opts1 Epoll False) 0 world1)) = [7, 6, 4, 5]"
  by (simp add: create_def opts1_def env_ok_def world1_def epoll_defs prim_defs load_array_def
        sem_wait_def)

text \<open>
  C8, amended. A constructor that returns an engine has opened exactly: one
  descriptor (the control eventfd) for select and poll; two (the epoll instance and
  the control eventfd) for epoll; the control eventfd and, besides, one io_uring
  instance for io_uring; none for the thread-per-descriptor engine. A constructor
  that returns an error leaves the open descriptors and the io_uring instances as
  they were, and at no outcome are more than two descriptors added.
\<close>

theorem create_opens_descriptors:
  assumes "create env opts fds w = (r, w')"
  shows "(\<forall>e. r = Engine e \<longrightarrow>
            length (open_fds w') = length (open_fds w)
              + (case engine_ops opts of
                   Select \<Rightarrow> 1 | Poll \<Rightarrow> 1 | Epoll \<Rightarrow> 2 | Io_uring \<Rightarrow> 1 | Threads \<Rightarrow> 0)
            \<and> rings w' = rings w + (if engine_ops opts = Io_uring then 1 else 0))
         \<and> (\<forall>m. r = Error m \<longrightarrow> open_fds w' = open_fds w \<and> rings w' = rings w)
         \<and> length (open_fds w') \<le> length (open_fds w) + 2"
  using assms
proof (cases rule: create_cases)
  case (Select r0)
  with select_create_fds [OF Select(2)] show ?thesis by (cases r0) auto
next
  case (Poll r0)
  with poll_create_fds [OF Poll(2)] show ?thesis by (cases r0) auto
next
  case (Epoll r0)
  with epoll_do_create_fds [OF Epoll(2)] show ?thesis by (cases r0) auto
next
  case (Io_uring r0)
  with io_uring_create_fds [OF Io_uring(2)] show ?thesis by (cases r0) auto
next
  case (Threads r0)
  with threads_create_fds [OF Threads(2)] show ?thesis by (cases r0) auto
qed

theorem create_opens_descriptors_witness:
  "length (open_fds (snd (create env_ok (opts1 Epoll False) 0 world1)))
     = length (open_fds world1) + 2
   \<and> rings (snd (create env_ok (opts1 Epoll False) 0 world1)) = rings world1"
proof -
  have e: "fst (create env_ok (opts1 Epoll False) 0 world1)
     = Engine (EpollEngine \<lparr>ee_self = 3, ee_thread = 0, ee_msgbuf = 4, ee_msg_size = 1,
                 ee_efd = 7, ee_epfd = 6\<rparr>)"
    by (simp add: create_def opts1_def env_ok_def world1_def epoll_defs prim_defs load_array_def
        sem_wait_def)
  have o: "engine_ops (opts1 Epoll False) = Epoll" by (simp add: opts1_def)
  show ?thesis
    using create_opens_descriptors [OF surjective_pairing, of env_ok "opts1 Epoll False" 0 world1] e o
    by simp
qed

section \<open>What a worker does with a short read\<close>

text \<open>
  C1. The claim asks every backend to echo only after a read of exactly \<open>msg_size\<close>
  bytes. With \<open>msg_size = 2\<close> and a \<open>read\<close> that returns 1 on the ready data descriptor
  5, the select, poll, epoll and io_uring workers go on to \<open>write\<close> two bytes: their
  test is \<open>read(..) <= 0\<close>. The thread-per-descriptor worker, whose test is
  \<open>ret != msg_size\<close>, skips the echo on the same read.
\<close>

theorem short_read_is_echoed:
  "select_thread 2 [3, 5] [wakeup_short] = (False, [Post, Wait, Read 5 2, Write 5 2])
   \<and> poll_thread 2 [3, 5] [wakeup_short] = (False, [Post, Wait, Read 5 2, Write 5 2])
   \<and> epoll_thread 2 3 [wakeup_short] = (False, [Post, Wait, Read 5 2, Write 5 2])
   \<and> io_uring_thread 2 3 [wakeup_short]
        = (False, [Post, Wait, Read 5 2, Write 5 2, Requeue 5])
   \<and> threads_fd_thread 2 5 [1] = (False, [Post, Read 5 2])"
  by (simp add: select_thread_def poll_thread_def epoll_thread_def io_uring_thread_def
        threads_fd_thread_def wakeup_short_def emit_def)

section \<open>The round-trip counter\<close>

lemma iogen_init_num_ios: "ig_num_ios (fst (snd (iogen_init env g opts w))) = ig_num_ios g"
  by (simp add: iogen_init_def split: prod.splits option.splits)

lemma iogen_init_world1:
  "iogen_init env_ok iogen_stack (opts1 b False) world_empty
     = (InitOk,
        \<lparr>ig_engine_fds = Some 0, ig_iogen_fds = Some 1, ig_num_fds = 1, ig_msgbuf = Some 2,
          ig_msg_size = 1, ig_random_seed = 1000, ig_num_ios = 5\<rparr>,
        world1)"
  by (auto simp: iogen_init_def env_ok_def iogen_stack_def opts1_def world_empty_def
        world1_def prim_defs load_def fun_eq_iff)

text \<open>
  C6. The claim asks the counter to start at zero when the generator is
  initialised. \<open>iogen_init\<close> never assigns \<open>num_ios\<close>: the member keeps whatever the
  caller's struct held, for every input. With a struct whose \<open>num_ios\<close> happens to be
  5, a run that is stopped before its first round trip reports 5 round trips.
\<close>

theorem num_ios_is_never_initialised:
  "ig_num_ios (fst (snd (iogen_init env g opts w))) = ig_num_ios g
   \<and> fst (iogen_init env_ok iogen_stack (opts1 Select False) world_empty) = InitOk
   \<and> map_option (\<lambda>(e, g', chans). (e, total_roundtrips g', chans))
        (iogen_run (fst (snd (iogen_init env_ok iogen_stack (opts1 Select False) world_empty)))
           [turn_stop])
      = Some (Stopped, 5, [])"
  by (simp add: iogen_init_num_ios iogen_init_world1 iogen_run_def turn_stop_def
        total_roundtrips_def)

section \<open>The channel of each round trip\<close>

lemma iogen_run_loop_num_fds:
  "iogen_run_loop ts fd g = Some (e, g', chans) \<Longrightarrow> ig_num_fds g' = ig_num_fds g"
  by (induction ts arbitrary: fd g chans) (auto split: if_splits)

lemma iogen_run_loop_chans:
  "iogen_run_loop ts fd g = Some (e, g', chans) \<Longrightarrow>
     (chans \<noteq> [] \<longrightarrow> hd chans = fd)
     \<and> (\<forall>k. Suc k < length chans \<longrightarrow>
            chans ! Suc k = random_r_out (ts ! k) smod int (ig_num_fds g))"
proof (induction ts arbitrary: fd g chans)
  case Nil
  then show ?case by simp
next
  case (Cons t ts)
  show ?case
  proof (cases "length chans \<le> 1")
    case True
    with Cons.prems show ?thesis by (auto split: if_splits)
  next
    case False
    with Cons.prems obtain chans' where
      rec: "iogen_run_loop ts (random_r_out t smod int (ig_num_fds g))
              (g\<lparr>ig_num_ios := ig_num_ios g + 1\<rparr>) = Some (e, g', chans')"
      and ch: "chans = fd # chans'"
      by (auto split: if_splits)
    from False ch have ne: "chans' \<noteq> []" by auto
    from Cons.IH [OF rec] ne have
      h: "hd chans' = random_r_out t smod int (ig_num_fds g)"
      and r: "\<And>k. Suc k < length chans' \<Longrightarrow>
                 chans' ! Suc k = random_r_out (ts ! k) smod int (ig_num_fds g)"
      by auto
    have "chans ! Suc k = random_r_out ((t # ts) ! k) smod int (ig_num_fds g)"
      if "Suc k < length chans" for k
    proof (cases k)
      case 0
      with ch ne h show ?thesis by (simp add: hd_conv_nth)
    next
      case (Suc j)
      with that ch r [of j] show ?thesis by simp
    qed
    with ch show ?thesis by simp
  qed
qed

lemma iogen_run_loop_range:
  "iogen_run_loop ts fd g = Some (e, g', chans) \<Longrightarrow> 0 \<le> fd \<Longrightarrow> fd < int (ig_num_fds g)
     \<Longrightarrow> \<forall>t\<in>set ts. 0 \<le> random_r_out t
     \<Longrightarrow> \<forall>c\<in>set chans. 0 \<le> c \<and> c < int (ig_num_fds g)"
proof (induction ts arbitrary: fd g chans)
  case Nil
  then show ?case by simp
next
  case (Cons t ts)
  have n: "0 < int (ig_num_fds g)" using Cons.prems(2,3) by linarith
  have r: "0 \<le> random_r_out t" using Cons.prems(4) by simp
  have in_range: "0 \<le> random_r_out t smod int (ig_num_fds g)"
      "random_r_out t smod int (ig_num_fds g) < int (ig_num_fds g)"
    using smod_int_compares(1,2) [OF r n] by auto
  show ?case
  proof (cases "length chans \<le> 1")
    case True
    with Cons.prems show ?thesis by (auto split: if_splits)
  next
    case False
    with Cons.prems(1) obtain chans' where
      rec: "iogen_run_loop ts (random_r_out t smod int (ig_num_fds g))
              (g\<lparr>ig_num_ios := ig_num_ios g + 1\<rparr>) = Some (e, g', chans')"
      and ch: "chans = fd # chans'"
      by (auto split: if_splits)
    from Cons.IH [OF rec] in_range Cons.prems(4)
    have "\<forall>c\<in>set chans'. 0 \<le> c \<and> c < int (ig_num_fds g)" by simp
    with ch Cons.prems(2,3) show ?thesis by simp
  qed
qed

lemma iogen_run_loop_returns:
  "list_ex stop_at_test ts \<Longrightarrow> iogen_run_loop ts fd g \<noteq> None"
  by (induction ts arbitrary: fd g) auto

text \<open>
  C9, as the claim states it, fails: the channel of the first round trip is not
  drawn from the random stream. With two channels and a stream that delivers 1,
  for which \<open>1 % 2 = 1\<close>, the first \<open>write\<close> still goes to channel 0.
\<close>

theorem first_channel_is_not_drawn:
  "map_option (\<lambda>(e, g', chans). chans) (iogen_run iogen_two [turn_ok 1, turn_ok 1, turn_stop])
     = Some [0, 1]
   \<and> random_r_out (turn_ok 1) smod int (ig_num_fds iogen_two) = 1"
  by (simp add: iogen_run_def iogen_two_def turn_ok_def turn_stop_def signed_modulo_int_def)

text \<open>
  C9, amended. The first round trip of a run targets channel 0. Every later round
  trip targets \<open>r % num_fds\<close>, where \<open>r\<close> is the number \<open>random_r\<close> delivered at the end
  of the round trip before. Given \<open>num_fds > 0\<close> and the non-negative numbers
  \<open>random_r\<close> delivers, every channel index used lies in \<open>[0, num_fds)\<close>.
\<close>

theorem channel_choice:
  assumes "iogen_run g ts = Some (e, g', chans)" and "0 < ig_num_fds g"
    and "\<forall>t\<in>set ts. 0 \<le> random_r_out t"
  shows "(chans \<noteq> [] \<longrightarrow> hd chans = 0)
         \<and> (\<forall>k. Suc k < length chans \<longrightarrow>
                chans ! Suc k = random_r_out (ts ! k) smod int (ig_num_fds g))
         \<and> (\<forall>c\<in>set chans. 0 \<le> c \<and> c < int (ig_num_fds g))"
proof -
  from assms(1) have l: "iogen_run_loop ts 0 g = Some (e, g', chans)"
    by (simp add: iogen_run_def)
  from iogen_run_loop_chans [OF l] iogen_run_loop_range [OF l _ _ assms(3)] assms(2)
  show ?thesis by simp
qed

theorem channel_choice_witness:
  "iogen_run iogen_two [turn_ok 3, turn_ok 4, turn_stop]
     = Some (Stopped, iogen_two\<lparr>ig_num_ios := 2\<rparr>, [0, 1])
   \<and> 0 < ig_num_fds iogen_two
   \<and> hd [0, 1 :: int] = 0
   \<and> [0, 1 :: int] ! 1 = random_r_out (turn_ok 3) smod int (ig_num_fds iogen_two)"
proof -
  have run: "iogen_run iogen_two [turn_ok 3, turn_ok 4, turn_stop]
     = Some (Stopped, iogen_two\<lparr>ig_num_ios := 2\<rparr>, [0, 1])"
    by (simp add: iogen_run_def iogen_two_def turn_ok_def turn_stop_def signed_modulo_int_def)
  have n: "0 < ig_num_fds iogen_two" by (simp add: iogen_two_def)
  have r: "\<forall>t\<in>set [turn_ok 3, turn_ok 4, turn_stop]. 0 \<le> random_r_out t"
    by (simp add: turn_ok_def turn_stop_def)
  from channel_choice [OF run n r] have "[0, 1 :: int] ! Suc 0
      = random_r_out ([turn_ok 3, turn_ok 4, turn_stop] ! 0) smod int (ig_num_fds iogen_two)"
    by simp
  with run n show ?thesis by simp
qed

section \<open>What the start-up handshake guarantees\<close>

lemma hs_inv_init: "hs_inv n hs_init"
  by (simp add: hs_inv_def hs_init_def)

lemma hs_inv_creator: "hs_inv n s \<Longrightarrow> hs_inv n (hs_step n Creator s)"
  by (cases "creator s")
     (auto simp: hs_inv_def nth_append less_Suc_eq split: if_splits)

lemma hs_inv_worker: "hs_inv n s \<Longrightarrow> hs_inv n (hs_step n (Worker j) s)"
proof (cases "j < length (workers s)")
  case False
  then show "hs_inv n s \<Longrightarrow> ?thesis" by simp
next
  case True
  assume inv: "hs_inv n s"
  show ?thesis
  proof (cases "creator s")
    case (Spawning i)
    with inv True show ?thesis
      by (cases "workers s ! j") (auto simp: hs_inv_def nth_list_update)
  next
    case (Waiting i)
    with inv True show ?thesis
      by (cases "workers s ! j") (auto simp: hs_inv_def nth_list_update less_Suc_eq)
  next
    case Returned
    with inv True show ?thesis
      by (cases "workers s ! j") (auto simp: hs_inv_def nth_list_update)
  qed
qed

lemma hs_inv_step: "hs_inv n s \<Longrightarrow> hs_inv n (hs_step n a s)"
  by (cases a) (simp_all only: hs_inv_creator hs_inv_worker)

lemma hs_inv_run: "hs_inv n (hs_run n sched)"
  by (induction sched rule: rev_induct) (simp_all add: hs_run_def hs_inv_init hs_inv_step)

lemma thread_posts_first:
  "hd (snd (select_thread ms fds ks)) = Post"
  "hd (snd (poll_thread ms fds ks)) = Post"
  "hd (snd (epoll_thread ms efd ks)) = Post"
  "hd (snd (io_uring_thread ms efd ks)) = Post"
  "hd (snd (threads_fd_thread ms d rs)) = Post"
  by (simp_all add: select_thread_def poll_thread_def epoll_thread_def io_uring_thread_def
        threads_fd_thread_def emit_def)

text \<open>
  C3, as the claim states it, fails: a worker posts its readiness signal before it
  calls its wait primitive, not after it has entered it, so \<open>create\<close> can return while
  the worker is still on its way there. With one worker: the creator spawns it, the
  worker posts, the creator takes the post and returns; the worker has posted and
  is not yet inside its blocking call.
\<close>

theorem create_returns_before_wait:
  "creator (hs_run 1 [Creator, Worker 0, Creator, Creator]) = Returned
   \<and> workers (hs_run 1 [Creator, Worker 0, Creator, Creator]) = [Posted]"
  by (simp add: hs_run_def hs_init_def)

text \<open>
  C3, amended. \<open>create\<close> blocks until each worker it spawned has posted its
  readiness signal, which is the first thing every worker does, before it calls its
  wait primitive for the first time. When \<open>create\<close> returns, every worker exists and
  is past its \<open>sem_post\<close>: about to enter its wait primitive, or inside it.
\<close>

theorem create_returns_after_every_post:
  assumes "creator (hs_run n sched) = Returned"
  shows "length (workers (hs_run n sched)) = n
         \<and> (\<forall>j<n. workers (hs_run n sched) ! j = Posted \<or> workers (hs_run n sched) ! j = InWait)
         \<and> hd (snd (select_thread ms fds ks)) = Post
         \<and> hd (snd (poll_thread ms fds ks)) = Post
         \<and> hd (snd (epoll_thread ms efd ks)) = Post
         \<and> hd (snd (io_uring_thread ms efd ks)) = Post
         \<and> hd (snd (threads_fd_thread ms d rs)) = Post"
proof -
  from hs_inv_run [of n sched] assms
  have l: "length (workers (hs_run n sched)) = n"
    and s: "\<And>j. j < n \<Longrightarrow> workers (hs_run n sched) ! j \<noteq> Started"
    by (auto simp: hs_inv_def)
  have "workers (hs_run n sched) ! j = Posted \<or> workers (hs_run n sched) ! j = InWait"
    if "j < n" for j
    using s [OF that] by (cases "workers (hs_run n sched) ! j") auto
  with l show ?thesis by (simp add: thread_posts_first)
qed

theorem create_returns_after_every_post_witness:
  "creator (hs_run 2 [Creator, Worker 0, Worker 0, Creator, Creator, Worker 1, Creator, Creator])
     = Returned
   \<and> workers (hs_run 2 [Creator, Worker 0, Worker 0, Creator, Creator, Worker 1, Creator, Creator])
     = [InWait, Posted]"
proof -
  have r: "creator (hs_run 2 [Creator, Worker 0, Worker 0, Creator, Creator, Worker 1, Creator, Creator])
     = Returned"
    by (simp add: hs_run_def hs_init_def)
  have w: "workers (hs_run 2 [Creator, Worker 0, Worker 0, Creator, Creator, Worker 1, Creator, Creator])
     = [InWait, Posted]"
    by (simp add: hs_run_def hs_init_def)
  from create_returns_after_every_post [OF r] r w show ?thesis by simp
qed

section \<open>Blocking and non-blocking ends\<close>

lemma load_store_same:
  "blocks w b = Some vs \<Longrightarrow> i < length vs \<Longrightarrow> load (store b i v w) b i = v"
  by (simp add: load_def store_def)

lemma load_store_other_index: "i \<noteq> j \<Longrightarrow> load (store b i v w) b j = load w b j"
  by (cases "blocks w b") (simp_all add: load_def store_def)

lemma load_store_other_block: "b \<noteq> c \<Longrightarrow> load (store b i v w) c j = load w c j"
  by (simp add: load_def store_def)

lemma iogen_pairs_flags:
  assumes "iogen_pairs env efds ifds mb is w = (InitOk, w')"
    and "efds \<noteq> ifds"
    and "blocks w efds = Some es" and "blocks w ifds = Some gs"
    and "\<forall>i\<in>set is. i < length es \<and> i < length gs"
    and "distinct is" and "distinct (pair_fds env is)"
  shows "(\<forall>i\<in>set is. nonblock w' (load w' efds i) \<and> \<not> nonblock w' (load w' ifds i)
            \<and> socketpair_ret env i = Some (load w' efds i, load w' ifds i))
         \<and> (\<forall>j. j \<notin> set is \<longrightarrow> load w' efds j = load w efds j \<and> load w' ifds j = load w ifds j)
         \<and> (\<forall>d. d \<notin> set (pair_fds env is) \<longrightarrow> nonblock w' d = nonblock w d)"
  using assms
proof (induction "is" arbitrary: w es gs)
  case Nil
  then show ?case by simp
next
  case (Cons i "is")
  from Cons.prems(1) obtain a b where sp: "socketpair_ret env i = Some (a, b)"
    by (cases "socketpair_ret env i") (auto simp: socketpair_def split: nat.splits)
  define w1 where "w1 = snd (socketpair (Some (a, b)) w)"
  define w2 where "w2 = store ifds i b (store efds i a w1)"
  define w3 where "w3 = set_nonblocking (load w2 efds i) w2"
  have i_es: "i < length es" and i_gs: "i < length gs" using Cons.prems(5) by auto
  have b1: "blocks w1 = blocks w" by (simp add: w1_def socketpair_def)
  have b2e: "blocks w2 efds = Some (es[i := a])"
    using Cons.prems(2,3) by (simp add: w2_def store_def b1)
  have b2g: "blocks w2 ifds = Some (gs[i := b])"
    using Cons.prems(2,4) by (simp add: w2_def store_def b1)
  have le: "load w2 efds i = a" using b2e i_es by (simp add: load_def)
  have lg: "load w2 ifds i = b" using b2g i_gs by (simp add: load_def)
  have b3: "blocks w3 = blocks w2" by (simp add: w3_def set_nonblocking_def)
  have rec: "iogen_pairs env efds ifds mb is w3 = (InitOk, w')"
    using Cons.prems(1) sp by (simp add: w1_def w2_def w3_def socketpair_def)
  have pf: "pair_fds env (i # is) = a # b # pair_fds env is"
    using sp by (simp add: pair_fds_def)
  have ab: "a \<noteq> b" and a_out: "a \<notin> set (pair_fds env is)" and b_out: "b \<notin> set (pair_fds env is)"
    and dis: "distinct (pair_fds env is)"
    using Cons.prems(7) pf by auto
  have i_out: "i \<notin> set is" and dis_is: "distinct is" using Cons.prems(6) by auto
  have nb1: "nonblock w1 = (nonblock w)(a := False, b := False)"
    by (simp add: w1_def socketpair_def)
  have nb2: "nonblock w2 = nonblock w1" by (simp add: w2_def store_def)
  have "nonblock w3 = (nonblock w2)(a := True)"
    unfolding w3_def le by (simp add: set_nonblocking_def)
  with nb1 nb2 ab have nb3: "nonblock w3 = (nonblock w)(a := True, b := False)"
    by (auto simp: fun_eq_iff)
  have ih: "(\<forall>k\<in>set is. nonblock w' (load w' efds k) \<and> \<not> nonblock w' (load w' ifds k)
               \<and> socketpair_ret env k = Some (load w' efds k, load w' ifds k))
         \<and> (\<forall>j. j \<notin> set is \<longrightarrow> load w' efds j = load w3 efds j \<and> load w' ifds j = load w3 ifds j)
         \<and> (\<forall>d. d \<notin> set (pair_fds env is) \<longrightarrow> nonblock w' d = nonblock w3 d)"
  proof (rule Cons.IH [OF rec Cons.prems(2) _ _ _ dis_is dis])
    show "blocks w3 efds = Some (es[i := a])" by (simp add: b3 b2e)
    show "blocks w3 ifds = Some (gs[i := b])" by (simp add: b3 b2g)
    show "\<forall>k\<in>set is. k < length (es[i := a]) \<and> k < length (gs[i := b])"
      using Cons.prems(5) by simp
  qed
  have l3e: "load w3 efds j = (if j = i then a else load w efds j)" for j
    using Cons.prems(3) i_es by (simp add: load_def b3 b2e)
  have l3g: "load w3 ifds j = (if j = i then b else load w ifds j)" for j
    using Cons.prems(4) i_gs by (simp add: load_def b3 b2g)
  have here: "load w' efds i = a" "load w' ifds i = b" "nonblock w' a" "\<not> nonblock w' b"
    using ih i_out a_out b_out ab by (simp_all add: l3e l3g nb3)
  show ?case
  proof (intro conjI ballI allI impI)
    fix k assume "k \<in> set (i # is)"
    then show "nonblock w' (load w' efds k)" using here ih by auto
  next
    fix k assume "k \<in> set (i # is)"
    then show "\<not> nonblock w' (load w' ifds k)" using here ih by auto
  next
    fix k assume "k \<in> set (i # is)"
    then show "socketpair_ret env k = Some (load w' efds k, load w' ifds k)"
      using here ih sp by auto
  next
    fix j assume "j \<notin> set (i # is)"
    then show "load w' efds j = load w efds j" using ih by (simp add: l3e)
  next
    fix j assume "j \<notin> set (i # is)"
    then show "load w' ifds j = load w ifds j" using ih by (simp add: l3g)
  next
    fix d assume "d \<notin> set (pair_fds env (i # is))"
    then show "nonblock w' d = nonblock w d" using ih by (simp add: pf nb3)
  qed
qed

lemma iogen_init_flags:
  assumes "iogen_init env g opts w = (InitOk, g', w')"
    and "distinct (pair_fds env [0..<num_fds opts])"
  shows "\<forall>i<num_fds opts.
           nonblock w' (load w' (the (ig_engine_fds g')) i)
           \<and> \<not> nonblock w' (load w' (the (ig_iogen_fds g')) i)"
proof -
  from assms(1) obtain e i m w3 where
    m1: "malloc (malloc_fails env 0) (num_fds opts) w = (Some e, snd (malloc (malloc_fails env 0) (num_fds opts) w))"
    and m2: "malloc (malloc_fails env 1) (num_fds opts) (snd (malloc (malloc_fails env 0) (num_fds opts) w))
              = (Some i, snd (malloc (malloc_fails env 1) (num_fds opts) (snd (malloc (malloc_fails env 0) (num_fds opts) w))))"
    and m3: "calloc (malloc_fails env 2) (msg_size opts)
               (snd (malloc (malloc_fails env 1) (num_fds opts) (snd (malloc (malloc_fails env 0) (num_fds opts) w))))
              = (Some m, w3)"
    and pr: "iogen_pairs env e i m [0..<num_fds opts] w3 = (InitOk, w')"
    and ge: "ig_engine_fds g' = Some e" and gi: "ig_iogen_fds g' = Some i"
    by (auto simp: iogen_init_def split: prod.splits option.splits)
  have f0: "\<not> malloc_fails env 0" and f1: "\<not> malloc_fails env 1" and f2: "\<not> malloc_fails env 2"
    using m1 m2 m3 by (auto simp: malloc_def calloc_def split: if_splits)
  have e: "e = next_blk w" and i: "i = Suc (next_blk w)"
    using m1 m2 f0 f1 by (auto simp: malloc_def)
  have w3e: "blocks w3 e = Some (replicate (num_fds opts) 0)"
    and w3i: "blocks w3 i = Some (replicate (num_fds opts) 0)"
    using m3 f0 f1 f2 by (auto simp: malloc_def calloc_def e i)
  have "e \<noteq> i" by (simp add: e i)
  from iogen_pairs_flags [OF pr this w3e w3i _ _ assms(2)]
  show ?thesis by (simp add: ge gi)
qed


lemma select_create_nonblock:
  "select_create env opts fds w = (r, w') \<Longrightarrow> d \<noteq> eventfd_ret env
     \<Longrightarrow> nonblock w' d = nonblock w d"
  by (auto simp: select_defs prim_defs
           split: if_splits prod.splits option.splits bool.splits)

lemma poll_fill_nonblock: "nonblock (poll_fill pfds fds is w) = nonblock w"
  by (induction "is" arbitrary: w) (auto simp: store_def)

lemma poll_create_nonblock:
  "poll_create env opts fds w = (r, w') \<Longrightarrow> d \<noteq> eventfd_ret env
     \<Longrightarrow> nonblock w' d = nonblock w d"
  by (auto simp: poll_defs prim_defs poll_fill_nonblock
           split: if_splits prod.splits option.splits bool.splits)

lemma epoll_register_nonblock:
  "epoll_register env epfd excl ds w = (ok, w') \<Longrightarrow> nonblock w' = nonblock w"
  by (induction ds arbitrary: w)
     (auto simp: epoll_ctl_add_def split: if_splits prod.splits bool.splits)

lemma epoll_do_create_nonblock:
  "epoll_do_create env opts fds w = (r, w') \<Longrightarrow> d \<noteq> eventfd_ret env
     \<Longrightarrow> nonblock w' d = nonblock w d"
  by (auto simp: epoll_defs prim_defs
           split: if_splits prod.splits option.splits bool.splits
           dest!: epoll_register_nonblock)

lemma io_uring_add_all_nonblock:
  "io_uring_add_all env excl ds p w = (p', w') \<Longrightarrow> nonblock w' = nonblock w"
  by (induction ds arbitrary: w p)
     (auto simp: io_uring_add_poll_sqe_def io_uring_submit_def
           split: if_splits prod.splits bool.splits)

lemma io_uring_create_nonblock:
  "io_uring_create env opts fds w = (r, w') \<Longrightarrow> d \<noteq> eventfd_ret env
     \<Longrightarrow> nonblock w' d = nonblock w d"
  by (auto simp: io_uring_defs prim_defs
           split: if_splits prod.splits option.splits bool.splits
           dest!: io_uring_add_all_nonblock)

lemma threads_cancel_down_nonblock:
  "threads_cancel_down thr i w = Some w' \<Longrightarrow> nonblock w' = nonblock w"
  by (induction i arbitrary: w)
     (auto simp: pthread_join_def pthread_cancel_def split: if_splits option.splits)

text \<open>The spawn loop only ever clears the flag.\<close>

lemma threads_spawn_nonblock_mono:
  "threads_spawn env opts te msgbuf thr fds is w = (r, w') \<Longrightarrow> \<not> nonblock w d
     \<Longrightarrow> \<not> nonblock w' d"
  by (induction "is" arbitrary: w)
     (auto simp: threads_defs prim_defs
           split: if_splits prod.splits option.splits bool.splits
           dest!: threads_cancel_down_nonblock)

lemma threads_spawn_clears:
  assumes "threads_spawn env opts te msgbuf thr fds is w = (Engine e, w')"
    and "fds \<noteq> thr"
  shows "\<forall>i\<in>set is. \<not> nonblock w' (load w fds i)"
  using assms
proof (induction "is" arbitrary: w)
  case Nil
  then show ?case by simp
next
  case (Cons i "is")
  define d where "d = load w fds i"
  from Cons.prems(1) obtain t w1 where
    pc: "pthread_create (pthread_create_fails env i) (FdReader d) (set_blocking d w) = (Some t, w1)"
    and rec: "threads_spawn env opts te msgbuf thr fds is (store thr i (int t) w1) = (Engine e, w')"
    by (auto simp: d_def threads_defs split: prod.splits option.splits if_splits)
  have nb: "\<not> nonblock (store thr i (int t) w1) d"
    using pc by (auto simp: prim_defs split: if_splits)
  have ld: "load (store thr i (int t) w1) fds j = load w fds j" for j
    using pc Cons.prems(2) by (auto simp: prim_defs load_def split: if_splits)
  from Cons.IH [OF rec Cons.prems(2)] have "\<forall>j\<in>set is. \<not> nonblock w' (load w fds j)"
    by (simp add: ld)
  moreover from threads_spawn_nonblock_mono [OF rec nb] have "\<not> nonblock w' (load w fds i)"
    by (simp add: d_def)
  ultimately show ?case by simp
qed

lemma threads_create_clears:
  assumes "threads_create env opts fds w = (Engine e, w')" and "fds < next_blk w"
  shows "\<forall>i<num_fds opts. \<not> nonblock w' (load w fds i)"
proof -
  from assms(1) obtain w4 where
    sp: "threads_spawn env opts (next_blk w) (Suc (next_blk w)) (Suc (Suc (next_blk w))) fds
           [0..<num_fds opts] w4 = (Engine e, w')"
    and b4: "blocks w4 fds = blocks w fds"
    using assms(2)
    by (auto simp: threads_defs prim_defs split: prod.splits option.splits bool.splits if_splits)
  from assms(2) have "fds \<noteq> Suc (Suc (next_blk w))" by simp
  from threads_spawn_clears [OF sp this] b4 show ?thesis by (simp add: load_def)
qed

lemma threads_create_nonblock_mono:
  "threads_create env opts fds w = (r, w') \<Longrightarrow> \<not> nonblock w d \<Longrightarrow> \<not> nonblock w' d"
  by (auto simp: threads_defs prim_defs
           split: if_splits prod.splits option.splits bool.splits
           dest!: threads_spawn_nonblock_mono [where d = d])

text \<open>
  C7, as the claim states it, fails: constructing a thread-per-descriptor engine
  clears \<open>O_NONBLOCK\<close> on the engine-side end of every channel. After \<open>iogen_init\<close>
  the engine-side descriptor 4 is non-blocking; after \<open>threads_create\<close> it is blocking.
\<close>

theorem threads_create_makes_engine_side_blocking:
  "load world1 0 0 = 4 \<and> nonblock world1 4
   \<and> fst (create env_ok (opts1 Threads False) 0 world1)
       = Engine (ThreadsEngine \<lparr>te_self = 3, te_threads = 5, te_msgbuf = 4, te_msg_size = 1,
                   te_num_fds = 1\<rparr>)
   \<and> nonblock (snd (create env_ok (opts1 Threads False) 0 world1)) 4 = False"
  by (simp add: create_def opts1_def env_ok_def world1_def threads_defs prim_defs load_def
        sem_wait_def)


text \<open>
  C7, amended. When \<open>iogen_init\<close> succeeds, every generator-side end is blocking and
  every engine-side end is non-blocking. Constructing a select, poll, epoll or
  io_uring engine changes the mode of no descriptor but the engine's own new
  eventfd, whatever the outcome. A thread-per-descriptor engine that has been
  constructed has put every engine-side end \<open>fds[0..num_fds-1]\<close> into blocking mode;
  its constructor never makes a descriptor non-blocking, so the generator side stays
  blocking.
\<close>

theorem blocking_modes:
  "(iogen_init env g opts w = (InitOk, g', w') \<longrightarrow> distinct (pair_fds env [0..<num_fds opts])
      \<longrightarrow> (\<forall>i<num_fds opts.
             nonblock w' (load w' (the (ig_engine_fds g')) i)
             \<and> \<not> nonblock w' (load w' (the (ig_iogen_fds g')) i)))
   \<and> (create env opts fds w = (r, w1) \<longrightarrow> engine_ops opts \<noteq> Threads
        \<longrightarrow> (\<forall>d. d \<noteq> eventfd_ret env \<longrightarrow> nonblock w1 d = nonblock w d))
   \<and> (create env opts fds w = (Engine e, w2) \<longrightarrow> engine_ops opts = Threads
        \<longrightarrow> fds < next_blk w
        \<longrightarrow> (\<forall>i<num_fds opts. \<not> nonblock w2 (load w fds i)))
   \<and> (create env opts fds w = (r, w1) \<longrightarrow> engine_ops opts = Threads
        \<longrightarrow> (\<forall>d. \<not> nonblock w d \<longrightarrow> \<not> nonblock w1 d))"
proof (intro conjI impI)
  assume "iogen_init env g opts w = (InitOk, g', w')"
    and "distinct (pair_fds env [0..<num_fds opts])"
  then show "\<forall>i<num_fds opts.
             nonblock w' (load w' (the (ig_engine_fds g')) i)
             \<and> \<not> nonblock w' (load w' (the (ig_iogen_fds g')) i)"
    by (rule iogen_init_flags)
next
  assume c: "create env opts fds w = (r, w1)" and nt: "engine_ops opts \<noteq> Threads"
  from c show "\<forall>d. d \<noteq> eventfd_ret env \<longrightarrow> nonblock w1 d = nonblock w d"
  proof (cases rule: create_cases)
    case (Select r0) then show ?thesis by (auto dest: select_create_nonblock)
  next
    case (Poll r0) then show ?thesis by (auto dest: poll_create_nonblock)
  next
    case (Epoll r0) then show ?thesis by (auto dest: epoll_do_create_nonblock)
  next
    case (Io_uring r0) then show ?thesis by (auto dest: io_uring_create_nonblock)
  next
    case (Threads r0) with nt show ?thesis by simp
  qed
next
  assume c: "create env opts fds w = (Engine e, w2)" and t: "engine_ops opts = Threads"
    and f: "fds < next_blk w"
  from c t obtain e0 where "threads_create env opts fds w = (Engine e0, w2)"
  proof (cases rule: create_cases)
    case (Threads r0)
    then show ?thesis by (cases r0) (auto intro: that)
  qed simp_all
  from threads_create_clears [OF this f]
  show "\<forall>i<num_fds opts. \<not> nonblock w2 (load w fds i)" .
next
  assume c: "create env opts fds w = (r, w1)" and t: "engine_ops opts = Threads"
  from c t obtain r0 where "threads_create env opts fds w = (r0, w1)"
    by (cases rule: create_cases) simp_all
  then show "\<forall>d. \<not> nonblock w d \<longrightarrow> \<not> nonblock w1 d"
    by (auto dest: threads_create_nonblock_mono)
qed

theorem blocking_modes_witness:
  "nonblock world1 4 \<and> \<not> nonblock world1 5
   \<and> nonblock (snd (create env_ok (opts1 Select False) 0 world1)) 4
   \<and> \<not> nonblock (snd (create env_ok (opts1 Select False) 0 world1)) 5
   \<and> \<not> nonblock (snd (create env_ok (opts1 Threads False) 0 world1)) 4"
proof -
  let ?g = "\<lparr>ig_engine_fds = Some 0, ig_iogen_fds = Some 1, ig_num_fds = 1,
             ig_msgbuf = Some 2, ig_msg_size = 1, ig_random_seed = 1000, ig_num_ios = 5\<rparr>"
  have init: "iogen_init env_ok iogen_stack (opts1 Select False) world_empty
                = (InitOk, ?g, world1)"
    by (rule iogen_init_world1)
  have dist: "distinct (pair_fds env_ok [0..<num_fds (opts1 Select False)])"
    by (simp add: pair_fds_def env_ok_def opts1_def)
  have ld: "load world1 0 0 = 4" "load world1 1 0 = 5"
    by (simp_all add: load_def world1_def)
  have a: "nonblock world1 4 \<and> \<not> nonblock world1 5"
    using blocking_modes [where env = env_ok and g = iogen_stack and opts = "opts1 Select False"
        and w = world_empty and g' = ?g and w' = world1] init dist ld
    by (simp add: opts1_def)
  have b: "\<forall>d. d \<noteq> 7 \<longrightarrow>
             nonblock (snd (create env_ok (opts1 Select False) 0 world1)) d = nonblock world1 d"
    using blocking_modes [where env = env_ok and opts = "opts1 Select False" and fds = 0
        and w = world1 and r = "fst (create env_ok (opts1 Select False) 0 world1)"
        and ?w1.0 = "snd (create env_ok (opts1 Select False) 0 world1)"]
    by (simp add: opts1_def env_ok_def)
  have eng: "create env_ok (opts1 Threads False) 0 world1
     = (Engine (ThreadsEngine \<lparr>te_self = 3, te_threads = 5, te_msgbuf = 4, te_msg_size = 1,
                   te_num_fds = 1\<rparr>), snd (create env_ok (opts1 Threads False) 0 world1))"
    by (simp add: create_def opts1_def env_ok_def world1_def threads_defs prim_defs load_def
        sem_wait_def)
  have c: "\<not> nonblock (snd (create env_ok (opts1 Threads False) 0 world1)) 4"
    using blocking_modes [where env = env_ok and opts = "opts1 Threads False" and fds = 0
        and w = world1
        and e = "ThreadsEngine \<lparr>te_self = 3, te_threads = 5, te_msgbuf = 4, te_msg_size = 1,
                   te_num_fds = 1\<rparr>"
        and ?w2.0 = "snd (create env_ok (opts1 Threads False) 0 world1)"] eng ld
    by (simp add: opts1_def world1_def)
  from a b c show ?thesis by simp
qed

section \<open>What the counter counts\<close>

text \<open>Whatever value the counter starts from, a run adds one for each turn that
  completes its round trip, up to the first turn that does not, and nothing after.\<close>

lemma full_turn_num_ios [simp]: "full_turn (g\<lparr>ig_num_ios := x\<rparr>) = full_turn g"
  by (simp add: full_turn_def fun_eq_iff)

lemma iogen_run_loop_counts:
  "iogen_run_loop ts fd g = Some (e, g', chans)
     \<Longrightarrow> ig_num_ios g' = ig_num_ios g + of_nat (length (takeWhile (full_turn g) ts))"
proof (induction ts arbitrary: fd g chans)
  case Nil
  then show ?case by simp
next
  case (Cons t ts)
  show ?case
  proof (cases "full_turn g t")
    case False
    with Cons.prems show ?thesis by (auto simp: full_turn_def split: if_splits)
  next
    case True
    with Cons.prems obtain chans' where
      "iogen_run_loop ts (random_r_out t smod int (ig_num_fds g))
         (g\<lparr>ig_num_ios := ig_num_ios g + 1\<rparr>) = Some (e, g', chans')"
      by (auto simp: full_turn_def split: if_splits)
    from Cons.IH [OF this] True show ?thesis by simp
  qed
qed

lemma iogen_run_counts:
  "iogen_run g ts = Some (e, g', chans)
     \<Longrightarrow> ig_num_ios g' = ig_num_ios g + of_nat (length (takeWhile (full_turn g) ts))"
  unfolding iogen_run_def by (rule iogen_run_loop_counts)

section \<open>Unwinding after a failure\<close>



















lemma io_uring_add_poll_sqe_log:
  "io_uring_add_poll_sqe env excl d p w = (q, p', w')
     \<Longrightarrow> \<exists>L. log w' = log w @ L \<and> list_all (\<lambda>a. released a = None \<and> acquired a = []) L"
  by (auto simp: io_uring_add_poll_sqe_def io_uring_submit_def split: if_splits)

lemma io_uring_submit_log:
  "io_uring_submit env p w = (q, p', w')
     \<Longrightarrow> \<exists>L. log w' = log w @ L \<and> list_all (\<lambda>a. released a = None \<and> acquired a = []) L"
  by (auto simp: io_uring_submit_def split: if_splits)






lemma map_result_simps:
  "(map_result f r0 = Blocked) = (r0 = Blocked)"
  "(\<exists>e. map_result f r0 = Engine e) = (\<exists>e. r0 = Engine e)"
  "(map_result f r0 = Error m) = (r0 = Error m)"
  by (cases r0; simp)+

text \<open>If the handshake wait could fail for a reason other than \<open>EINTR\<close>, each
  constructor would go to its \<open>pthread_join\<close> with a worker that nothing has told to
  stop, and would not come back. \<open>sem_wait\<close> on the semaphore that \<open>sem_init\<close> has just
  initialised has no such failure, so the branch is not taken.\<close>

lemma create_joins_a_running_worker_after_a_failed_wait:
  "fst (create env_sem_wait_fails (opts1 Select False) 0 world1) = Blocked
   \<and> fst (create env_sem_wait_fails (opts1 Poll False) 0 world1) = Blocked
   \<and> fst (create env_sem_wait_fails (opts1 Epoll False) 0 world1) = Blocked
   \<and> fst (create env_sem_wait_fails (opts1 Io_uring False) 0 world1) = Blocked
   \<and> fst (create env_sem_wait_fails (opts1 Threads False) 0 world1) = Blocked"
  by (simp add: create_def opts1_def env_sem_wait_fails_def env_ok_def world1_def
        select_defs poll_defs epoll_defs io_uring_defs threads_defs prim_defs
        load_def load_array_def pollfd_fd_def pollfd_events_def sem_wait_def will_exit_def
        FD_SETSIZE_def queue_depth_def)



end
